theory Spec2Isabelle
  imports Complex_Main
begin

section \<open>Data model\<close>

text \<open>
  The classes of \<^verbatim>\<open>prototype2.py\<close> and \<^verbatim>\<open>prototype3.py\<close> are the same in both files.
  Each class is a record; the fields carry a one-letter prefix because three classes share
  the field \<^verbatim>\<open>name\<close> and two share \<^verbatim>\<open>energy\<close>, \<^verbatim>\<open>x\<close> and \<^verbatim>\<open>y\<close>.
  A Python float is kept as the real number it denotes, and Python ints are \<^typ>\<open>int\<close>.
  The arithmetic of the metabolism, of the maps and of the means is exact real arithmetic.
  The two energy updates of the predation transfer round their results to the nearest
  double, as defined below: whether that transfer is exact is itself a property of the
  program. Infinities and NaN are not represented.
\<close>

record ChemicalCompound =
  c_name :: string
  c_energy :: real

record GeologicalFeature =
  f_name :: string
  f_compounds :: "ChemicalCompound list"
  f_x :: int
  f_y :: int

record Organism =
  o_name :: string
  o_energy :: real
  o_size :: real
  o_x :: int
  o_y :: int

record Ecosystem =
  e_features :: "GeologicalFeature list"
  e_organisms :: "Organism list"
  e_size :: "int \<times> int"
  e_temperature_map :: "real list list"
  e_pressure_map :: "int list list"

text \<open>The exceptions the modelled code can raise.\<close>

datatype error = ZeroDivisionError | ValueError | IndexError

text \<open>What \<^verbatim>\<open>simulate_cycle\<close> prints: one line per organism, one per predation.\<close>

datatype event =
  Foraged string int int real string string
| Preyed string string

section \<open>The random module\<close>

text \<open>
  The code draws from the global generator of Python's \<^verbatim>\<open>random\<close> module, which is
  not part of the repository. It is modelled as a tape of raw draws with a cursor: every
  library call reads the raw draw under the cursor, reduces it to the range of the call and
  advances the cursor by one. Every sequence of results the library can return is the
  reduction of some tape, so a statement for all tapes covers every run.
\<close>

record rng =
  tape :: "nat \<Rightarrow> nat"
  pos :: nat

definition next_raw :: "rng \<Rightarrow> nat \<times> rng" where
  "next_raw g = (tape g (pos g), g\<lparr>pos := Suc (pos g)\<rparr>)"

text \<open>\<^verbatim>\<open>random.random()\<close>: a multiple of \<open>2\<^sup>-\<^sup>5\<^sup>3\<close> in \<open>[0, 1)\<close>.\<close>

definition random_unit :: "rng \<Rightarrow> real \<times> rng" where
  "random_unit g = (case next_raw g of (r, g1) \<Rightarrow> (real (r mod 2 ^ 53) / 2 ^ 53, g1))"

text \<open>\<^verbatim>\<open>random.uniform(a, b)\<close> is \<^verbatim>\<open>a + (b - a) * random()\<close>.\<close>

definition uniform :: "real \<Rightarrow> real \<Rightarrow> rng \<Rightarrow> real \<times> rng" where
  "uniform a b g = (case random_unit g of (u, g1) \<Rightarrow> (a + (b - a) * u, g1))"

text \<open>
  \<^verbatim>\<open>random.randint(a, b)\<close> for \<open>a \<le> b\<close>, the only way the modelled code calls it
  (\<^verbatim>\<open>randint(-1, 1)\<close>).
\<close>

definition randint :: "int \<Rightarrow> int \<Rightarrow> rng \<Rightarrow> int \<times> rng" where
  "randint a b g = (case next_raw g of (r, g1) \<Rightarrow> (a + int (r mod nat (b - a + 1)), g1))"

text \<open>\<^verbatim>\<open>random.choice(seq)\<close> raises IndexError on an empty sequence.\<close>

definition choice :: "'a list \<Rightarrow> rng \<Rightarrow> error + ('a \<times> rng)" where
  "choice xs g =
     (if xs = [] then Inl IndexError
      else case next_raw g of (r, g1) \<Rightarrow> Inr (xs ! (r mod length xs), g1))"

section \<open>Python built-ins used by the code\<close>

text \<open>\<^verbatim>\<open>xs[i]\<close>: a negative index counts from the end, anything out of range raises.\<close>

definition py_index :: "'a list \<Rightarrow> int \<Rightarrow> error + 'a" where
  "py_index xs i =
     (if 0 \<le> i \<and> i < int (length xs) then Inr (xs ! nat i)
      else if - int (length xs) \<le> i \<and> i < 0 then Inr (xs ! nat (int (length xs) + i))
      else Inl IndexError)"

text \<open>\<^verbatim>\<open>grid[x][y]\<close>.\<close>

definition py_index2 :: "'a list list \<Rightarrow> int \<Rightarrow> int \<Rightarrow> error + 'a" where
  "py_index2 grid i j =
     (case py_index grid i of Inl err \<Rightarrow> Inl err | Inr row \<Rightarrow> py_index row j)"

text \<open>
  \<^verbatim>\<open>min(xs, key=k)\<close>: the scan replaces the candidate only by an element whose key is
  strictly smaller, and raises ValueError on an empty sequence.
\<close>

fun min_scan :: "('a \<Rightarrow> real) \<Rightarrow> 'a \<Rightarrow> 'a list \<Rightarrow> 'a" where
  "min_scan k best [] = best"
| "min_scan k best (x # xs) = min_scan k (if k x < k best then x else best) xs"

definition py_min :: "('a \<Rightarrow> real) \<Rightarrow> 'a list \<Rightarrow> error + 'a" where
  "py_min k xs = (case xs of [] \<Rightarrow> Inl ValueError | x # rest \<Rightarrow> Inr (min_scan k x rest))"

text \<open>\<^verbatim>\<open>a / b\<close> with an int divisor, as in the means of \<^verbatim>\<open>get_plot_data\<close>.\<close>

definition py_truediv :: "real \<Rightarrow> int \<Rightarrow> error + real" where
  "py_truediv a b = (if b = 0 then Inl ZeroDivisionError else Inr (a / real_of_int b))"

section \<open>Double arithmetic\<close>

text \<open>
  A Python float is an IEEE-754 double. The doubles of binary exponent \<open>k\<close>, those with
  \<open>2\<^sup>k \<le> \<bar>x\<bar> < 2\<^sup>k\<^sup>+\<^sup>1\<close>, are the multiples of \<open>2\<^sup>k\<^sup>-\<^sup>5\<^sup>2\<close>; below \<open>2\<^sup>-\<^sup>1\<^sup>0\<^sup>2\<^sup>2\<close> the
  spacing stays that of exponent \<open>-1022\<close>. An operation on doubles returns its exact result
  rounded to the nearest double, a tie going to the even multiple. Overflow to infinity
  (a result of magnitude \<open>2\<^sup>1\<^sup>0\<^sup>2\<^sup>4\<close> or more) is outside the model.
\<close>

definition pow2 :: "int \<Rightarrow> real" where
  "pow2 k = (if 0 \<le> k then 2 ^ nat k else 1 / 2 ^ nat (- k))"

definition round_half_even :: "real \<Rightarrow> int" where
  "round_half_even q =
     (if q - real_of_int \<lfloor>q\<rfloor> < 1 / 2 then \<lfloor>q\<rfloor>
      else if 1 / 2 < q - real_of_int \<lfloor>q\<rfloor> then \<lfloor>q\<rfloor> + 1
      else if even \<lfloor>q\<rfloor> then \<lfloor>q\<rfloor> else \<lfloor>q\<rfloor> + 1)"

definition double_exponent :: "real \<Rightarrow> int" where
  "double_exponent x = max \<lfloor>log 2 \<bar>x\<bar>\<rfloor> (- 1022)"

definition double_ulp :: "real \<Rightarrow> real" where
  "double_ulp x = pow2 (double_exponent x - 52)"

definition round_double :: "real \<Rightarrow> real" where
  "round_double x =
     (if x = 0 then 0
      else real_of_int (round_half_even (x / double_ulp x)) * double_ulp x)"

text \<open>\<^verbatim>\<open>a + b\<close> and \<^verbatim>\<open>a / b\<close> on floats, for a non-zero divisor.\<close>

definition float_add :: "real \<Rightarrow> real \<Rightarrow> real" where
  "float_add a b = round_double (a + b)"

definition float_div :: "real \<Rightarrow> real \<Rightarrow> real" where
  "float_div a b = round_double (a / b)"

section \<open>Organism (prototype3.py)\<close>

text \<open>
  \<^verbatim>\<open>metabolize\<close> mutates the organism's energy and returns the energy gained: the model
  returns the updated organism with it.
\<close>

definition metabolize :: "Organism \<Rightarrow> ChemicalCompound \<Rightarrow> real \<Rightarrow> real \<Rightarrow> Organism \<times> real" where
  "metabolize org compound temperature pressure =
     (let energy_gained = c_energy compound * o_size org;
          efficiency = 1 - \<bar>temperature - 10\<bar> / 20 - \<bar>pressure - 200\<bar> / 400;
          energy_gained = energy_gained * max 0 efficiency
      in (org\<lparr>o_energy := o_energy org + energy_gained\<rparr>, energy_gained))"

text \<open>\<^verbatim>\<open>%\<close> raises ZeroDivisionError for a zero modulus; otherwise it is the floor modulus.\<close>

definition move :: "Organism \<Rightarrow> int \<Rightarrow> int \<Rightarrow> int \<Rightarrow> int \<Rightarrow> error + Organism" where
  "move org dx dy max_x max_y =
     (if max_x = 0 then Inl ZeroDivisionError
      else if max_y = 0 then Inl ZeroDivisionError
      else Inr (org\<lparr>o_x := (o_x org + dx) mod max_x, o_y := (o_y org + dy) mod max_y\<rparr>))"

section \<open>Ecosystem (prototype3.py)\<close>

text \<open>
  \<^verbatim>\<open>__init__\<close> stores its arguments and generates the two maps, the temperature map
  first. Each list comprehension runs its inner loop for every step of the outer one, so
  the temperature map draws row by row; \<^verbatim>\<open>range(n)\<close> is empty for \<open>n \<le> 0\<close>.
\<close>

fun uniform_row :: "nat \<Rightarrow> rng \<Rightarrow> real list \<times> rng" where
  "uniform_row 0 g = ([], g)"
| "uniform_row (Suc n) g =
     (case uniform 5 15 g of (v, g1) \<Rightarrow>
        (case uniform_row n g1 of (vs, g2) \<Rightarrow> (v # vs, g2)))"

fun uniform_rows :: "nat \<Rightarrow> nat \<Rightarrow> rng \<Rightarrow> real list list \<times> rng" where
  "uniform_rows 0 n g = ([], g)"
| "uniform_rows (Suc m) n g =
     (case uniform_row n g of (row, g1) \<Rightarrow>
        (case uniform_rows m n g1 of (rows, g2) \<Rightarrow> (row # rows, g2)))"

definition generate_temperature_map :: "int \<times> int \<Rightarrow> rng \<Rightarrow> real list list \<times> rng" where
  "generate_temperature_map sz g = uniform_rows (nat (fst sz)) (nat (snd sz)) g"

definition generate_pressure_map :: "int \<times> int \<Rightarrow> int list list" where
  "generate_pressure_map sz =
     map (\<lambda>_. map (\<lambda>y. 100 + 10 * int y) [0..<nat (snd sz)]) [0..<nat (fst sz)]"

definition Ecosystem_init ::
  "GeologicalFeature list \<Rightarrow> Organism list \<Rightarrow> int \<times> int \<Rightarrow> rng \<Rightarrow> Ecosystem \<times> rng" where
  "Ecosystem_init features organisms sz g =
     (case generate_temperature_map sz g of (tmap, g1) \<Rightarrow>
        (\<lparr>e_features = features, e_organisms = organisms, e_size = sz,
          e_temperature_map = tmap, e_pressure_map = generate_pressure_map sz\<rparr>, g1))"

text \<open>\<^verbatim>\<open>((ax - bx) ** 2 + (ay - by) ** 2) ** 0.5\<close>, the distance of both distance tests.\<close>

definition distance :: "int \<Rightarrow> int \<Rightarrow> int \<Rightarrow> int \<Rightarrow> real" where
  "distance ax ay bx by = sqrt (real_of_int ((ax - bx) ^ 2 + (ay - by) ^ 2))"

definition get_nearby_feature :: "Ecosystem \<Rightarrow> Organism \<Rightarrow> error + GeologicalFeature" where
  "get_nearby_feature e organism =
     py_min (\<lambda>f. distance (f_x f) (f_y f) (o_x organism) (o_y organism)) (e_features e)"

text \<open>
  The body of the loop of \<^verbatim>\<open>simulate_cycle\<close>, for the organism at index \<open>i\<close> of the
  list, in two parts. The first part moves the organism, lets it metabolize and prints the
  foraging line. The organism is mutated in place, so the list holds the updated organism
  before the predation test reads it.
\<close>

definition forage :: "Ecosystem \<Rightarrow> nat \<Rightarrow> rng \<Rightarrow> error + (Ecosystem \<times> rng \<times> event list)" where
  "forage e i g =
     (case randint (- 1) 1 g of (dx, g1) \<Rightarrow>
      case randint (- 1) 1 g1 of (dy, g2) \<Rightarrow>
      case move (e_organisms e ! i) dx dy (fst (e_size e)) (snd (e_size e)) of
        Inl err \<Rightarrow> Inl err
      | Inr organism \<Rightarrow>
      case get_nearby_feature e organism of
        Inl err \<Rightarrow> Inl err
      | Inr feature \<Rightarrow>
      case choice (f_compounds feature) g2 of
        Inl err \<Rightarrow> Inl err
      | Inr (compound, g3) \<Rightarrow>
      case py_index2 (e_temperature_map e) (o_x organism) (o_y organism) of
        Inl err \<Rightarrow> Inl err
      | Inr temperature \<Rightarrow>
      case py_index2 (e_pressure_map e) (o_x organism) (o_y organism) of
        Inl err \<Rightarrow> Inl err
      | Inr pressure \<Rightarrow>
      case metabolize organism compound temperature (real_of_int pressure) of
        (organism', energy_gained) \<Rightarrow>
          Inr (e\<lparr>e_organisms := (e_organisms e)[i := organism']\<rparr>, g3,
               [Foraged (o_name organism') (o_x organism') (o_y organism') energy_gained
                  (c_name compound) (f_name feature)]))"

text \<open>
  The second part is the predation test. The list of prey holds references into the
  organism list, modelled as indices; the two energy updates run in the order of the
  source, each operation rounding to a double.
\<close>

definition prey_indices :: "Ecosystem \<Rightarrow> nat list" where
  "prey_indices e =
     filter (\<lambda>j. o_name (e_organisms e ! j) = ''Giant Tubeworm'') [0..<length (e_organisms e)]"

definition predation :: "Ecosystem \<Rightarrow> nat \<Rightarrow> rng \<Rightarrow> error + (Ecosystem \<times> rng \<times> event list)" where
  "predation e i g =
     (if o_name (e_organisms e ! i) = ''Yeti Crab'' \<and> 10 < o_energy (e_organisms e ! i) then
        case choice (prey_indices e) g of
          Inl err \<Rightarrow> Inl err
        | Inr (j, g1) \<Rightarrow>
            if distance (o_x (e_organisms e ! j)) (o_y (e_organisms e ! j))
                 (o_x (e_organisms e ! i)) (o_y (e_organisms e ! i)) < 2
            then
              let os1 = (e_organisms e)[i := (e_organisms e ! i)
                          \<lparr>o_energy := float_add (o_energy (e_organisms e ! i))
                                         (float_div (o_energy (e_organisms e ! j)) 2)\<rparr>];
                  os2 = os1[j := (os1 ! j)\<lparr>o_energy := float_div (o_energy (os1 ! j)) 2\<rparr>]
              in Inr (e\<lparr>e_organisms := os2\<rparr>, g1,
                      [Preyed (o_name (e_organisms e ! i)) (o_name (e_organisms e ! j))])
            else Inr (e, g1, [])
      else Inr (e, g, []))"

definition process_organism :: "Ecosystem \<Rightarrow> nat \<Rightarrow> rng \<Rightarrow> error + (Ecosystem \<times> rng \<times> event list)" where
  "process_organism e i g =
     (case forage e i g of
        Inl err \<Rightarrow> Inl err
      | Inr (e1, g1, evs1) \<Rightarrow>
          (case predation e1 i g1 of
             Inl err \<Rightarrow> Inl err
           | Inr (e2, g2, evs2) \<Rightarrow> Inr (e2, g2, evs1 @ evs2)))"

text \<open>
  \<^verbatim>\<open>for organism in self.organisms\<close>: the list itself never changes length, so the loop
  visits the indices in order. An exception ends the cycle.
\<close>

fun cycle_loop :: "nat list \<Rightarrow> Ecosystem \<Rightarrow> rng \<Rightarrow> error + (Ecosystem \<times> rng \<times> event list)" where
  "cycle_loop [] e g = Inr (e, g, [])"
| "cycle_loop (i # rest) e g =
     (case process_organism e i g of
        Inl err \<Rightarrow> Inl err
      | Inr (e1, g1, evs1) \<Rightarrow>
          (case cycle_loop rest e1 g1 of
             Inl err \<Rightarrow> Inl err
           | Inr (e2, g2, evs2) \<Rightarrow> Inr (e2, g2, evs1 @ evs2)))"

definition simulate_cycle :: "Ecosystem \<Rightarrow> rng \<Rightarrow> error + (Ecosystem \<times> rng \<times> event list)" where
  "simulate_cycle e g = cycle_loop [0..<length (e_organisms e)] e g"

text \<open>
  \<^verbatim>\<open>get_plot_data\<close> of prototype3.py. The model returns the ecosystem with the result, as
  every operation on the object does; the three means are evaluated in the order of the
  dict display.
\<close>

definition species_mean :: "Organism list \<Rightarrow> string \<Rightarrow> error + real" where
  "species_mean os species =
     py_truediv (sum_list (map o_energy (filter (\<lambda>org. o_name org = species) os)))
                (sum_list (map (\<lambda>org. 1) (filter (\<lambda>org. o_name org = species) os)))"

definition color_of :: "Organism \<Rightarrow> string" where
  "color_of org = (if o_name org = ''Sulfur-oxidizing Microbe'' then ''r''
                   else if o_name org = ''Giant Tubeworm'' then ''g'' else ''b'')"

type_synonym plot_data =
  "int list \<times> int list \<times> int list \<times> int list \<times> string list \<times> real list \<times> (string \<times> real) list"

definition get_plot_data :: "Ecosystem \<Rightarrow> (error + plot_data) \<times> Ecosystem" where
  "get_plot_data e =
     (case species_mean (e_organisms e) ''Sulfur-oxidizing Microbe'' of
        Inl err \<Rightarrow> (Inl err, e)
      | Inr microbe \<Rightarrow>
     (case species_mean (e_organisms e) ''Giant Tubeworm'' of
        Inl err \<Rightarrow> (Inl err, e)
      | Inr tubeworm \<Rightarrow>
     (case species_mean (e_organisms e) ''Yeti Crab'' of
        Inl err \<Rightarrow> (Inl err, e)
      | Inr crab \<Rightarrow>
          (Inr (map f_x (e_features e), map f_y (e_features e),
                map o_x (e_organisms e), map o_y (e_organisms e),
                map color_of (e_organisms e), map (\<lambda>org. o_size org * 100) (e_organisms e),
                [(''Microbe'', microbe), (''Tubeworm'', tubeworm), (''Crab'', crab)]), e))))"

section \<open>prototype2.py\<close>

text \<open>
  The classes and functions of prototype2.py, translated from that file. The data model,
  the random module and the built-ins are shared. The body of the loop of
  \<^verbatim>\<open>simulate_cycle\<close> is one definition here: \<open>fed\<close> is the organism object after
  \<^verbatim>\<open>metabolize\<close>, \<open>os0\<close> the organism list holding it.
\<close>

definition metabolize_p2 :: "Organism \<Rightarrow> ChemicalCompound \<Rightarrow> real \<Rightarrow> real \<Rightarrow> Organism \<times> real" where
  "metabolize_p2 org compound temperature pressure =
     (let energy_gained = c_energy compound * o_size org;
          efficiency = 1 - \<bar>temperature - 10\<bar> / 20 - \<bar>pressure - 200\<bar> / 400;
          energy_gained = energy_gained * max 0 efficiency
      in (org\<lparr>o_energy := o_energy org + energy_gained\<rparr>, energy_gained))"

definition move_p2 :: "Organism \<Rightarrow> int \<Rightarrow> int \<Rightarrow> int \<Rightarrow> int \<Rightarrow> error + Organism" where
  "move_p2 org dx dy max_x max_y =
     (if max_x = 0 then Inl ZeroDivisionError
      else if max_y = 0 then Inl ZeroDivisionError
      else Inr (org\<lparr>o_x := (o_x org + dx) mod max_x, o_y := (o_y org + dy) mod max_y\<rparr>))"

definition get_nearby_feature_p2 :: "Ecosystem \<Rightarrow> Organism \<Rightarrow> error + GeologicalFeature" where
  "get_nearby_feature_p2 e organism =
     py_min (\<lambda>f. sqrt (real_of_int ((f_x f - o_x organism) ^ 2 + (f_y f - o_y organism) ^ 2)))
       (e_features e)"

definition cycle_body_p2 :: "Ecosystem \<Rightarrow> nat \<Rightarrow> rng \<Rightarrow> error + (Ecosystem \<times> rng \<times> event list)" where
  "cycle_body_p2 e i g =
     (case randint (- 1) 1 g of (dx, g1) \<Rightarrow>
      case randint (- 1) 1 g1 of (dy, g2) \<Rightarrow>
      case move_p2 (e_organisms e ! i) dx dy (fst (e_size e)) (snd (e_size e)) of
        Inl err \<Rightarrow> Inl err
      | Inr moved \<Rightarrow>
      case get_nearby_feature_p2 e moved of
        Inl err \<Rightarrow> Inl err
      | Inr feature \<Rightarrow>
      case choice (f_compounds feature) g2 of
        Inl err \<Rightarrow> Inl err
      | Inr (compound, g3) \<Rightarrow>
      case py_index2 (e_temperature_map e) (o_x moved) (o_y moved) of
        Inl err \<Rightarrow> Inl err
      | Inr temperature \<Rightarrow>
      case py_index2 (e_pressure_map e) (o_x moved) (o_y moved) of
        Inl err \<Rightarrow> Inl err
      | Inr pressure \<Rightarrow>
      case metabolize_p2 moved compound temperature (real_of_int pressure) of
        (fed, energy_gained) \<Rightarrow>
          let os0 = (e_organisms e)[i := fed];
              line = Foraged (o_name fed) (o_x fed) (o_y fed) energy_gained
                       (c_name compound) (f_name feature)
          in if o_name fed = ''Yeti Crab'' \<and> 10 < o_energy fed then
               case choice (filter (\<lambda>j. o_name (os0 ! j) = ''Giant Tubeworm'') [0..<length os0]) g3 of
                 Inl err \<Rightarrow> Inl err
               | Inr (j, g4) \<Rightarrow>
                   if sqrt (real_of_int ((o_x (os0 ! j) - o_x fed) ^ 2 + (o_y (os0 ! j) - o_y fed) ^ 2)) < 2
                   then
                     let os1 = os0[i := fed\<lparr>o_energy :=
                                 float_add (o_energy fed) (float_div (o_energy (os0 ! j)) 2)\<rparr>];
                         os2 = os1[j := (os1 ! j)\<lparr>o_energy := float_div (o_energy (os1 ! j)) 2\<rparr>]
                     in Inr (e\<lparr>e_organisms := os2\<rparr>, g4,
                             [line, Preyed (o_name fed) (o_name (os0 ! j))])
                   else Inr (e\<lparr>e_organisms := os0\<rparr>, g4, [line])
             else Inr (e\<lparr>e_organisms := os0\<rparr>, g3, [line]))"

fun cycle_loop_p2 :: "nat list \<Rightarrow> Ecosystem \<Rightarrow> rng \<Rightarrow> error + (Ecosystem \<times> rng \<times> event list)" where
  "cycle_loop_p2 [] e g = Inr (e, g, [])"
| "cycle_loop_p2 (i # rest) e g =
     (case cycle_body_p2 e i g of
        Inl err \<Rightarrow> Inl err
      | Inr (e1, g1, evs1) \<Rightarrow>
          (case cycle_loop_p2 rest e1 g1 of
             Inl err \<Rightarrow> Inl err
           | Inr (e2, g2, evs2) \<Rightarrow> Inr (e2, g2, evs1 @ evs2)))"

definition simulate_cycle_p2 :: "Ecosystem \<Rightarrow> rng \<Rightarrow> error + (Ecosystem \<times> rng \<times> event list)" where
  "simulate_cycle_p2 e g = cycle_loop_p2 [0..<length (e_organisms e)] e g"

text \<open>\<^verbatim>\<open>get_plot_data\<close> of prototype2.py computes no means and cannot raise.\<close>

type_synonym plot_data_p2 =
  "int list \<times> int list \<times> int list \<times> int list \<times> string list \<times> real list"

definition get_plot_data_p2 :: "Ecosystem \<Rightarrow> plot_data_p2 \<times> Ecosystem" where
  "get_plot_data_p2 e =
     ((map f_x (e_features e), map f_y (e_features e),
       map o_x (e_organisms e), map o_y (e_organisms e),
       map color_of (e_organisms e), map (\<lambda>org. o_size org * 100) (e_organisms e)), e)"

section \<open>Runs\<close>

text \<open>
  A run of \<open>n\<close> cycles is \<open>n\<close> successive calls of \<^verbatim>\<open>simulate_cycle\<close> on the same ecosystem
  and generator, as the animation callback makes them, one per frame; its events are those
  of the cycles in order. An exception ends the run.
\<close>

fun run_cycles :: "nat \<Rightarrow> Ecosystem \<Rightarrow> rng \<Rightarrow> error + (Ecosystem \<times> rng \<times> event list)" where
  "run_cycles 0 e g = Inr (e, g, [])"
| "run_cycles (Suc n) e g =
     (case simulate_cycle e g of
        Inl err \<Rightarrow> Inl err
      | Inr (e1, g1, evs1) \<Rightarrow>
          (case run_cycles n e1 g1 of
             Inl err \<Rightarrow> Inl err
           | Inr (e2, g2, evs2) \<Rightarrow> Inr (e2, g2, evs1 @ evs2)))"

text \<open>
  Two generators agree on the next \<open>n\<close> draws when their tapes hold the same raw values at
  the \<open>n\<close> positions from their cursors on. What a run shows of itself is its exception, or
  its final ecosystem and its events.
\<close>

definition tapes_agree :: "nat \<Rightarrow> rng \<Rightarrow> rng \<Rightarrow> bool" where
  "tapes_agree n g1 g2 \<longleftrightarrow> (\<forall>k<n. tape g1 (pos g1 + k) = tape g2 (pos g2 + k))"

definition outcome :: "error + (Ecosystem \<times> rng \<times> event list) \<Rightarrow> error + (Ecosystem \<times> event list)" where
  "outcome r = (case r of Inl err \<Rightarrow> Inl err | Inr (e, g, evs) \<Rightarrow> Inr (e, evs))"

section \<open>Distances and a small world\<close>

text \<open>The Euclidean distance between a feature and an organism.\<close>

definition feature_distance :: "GeologicalFeature \<Rightarrow> Organism \<Rightarrow> real" where
  "feature_distance f organism = distance (f_x f) (f_y f) (o_x organism) (o_y organism)"

text \<open>
  The three compounds of \<^verbatim>\<open>create_ocean_world\<close>, and a 5 by 5 world with three
  features and one organism of each species, for concrete evaluation.
\<close>

definition hydrogen_sulfide :: ChemicalCompound where
  "hydrogen_sulfide = \<lparr>c_name = ''Hydrogen Sulfide'', c_energy = 1 / 2\<rparr>"

definition methane :: ChemicalCompound where
  "methane = \<lparr>c_name = ''Methane'', c_energy = 7 / 10\<rparr>"

definition iron :: ChemicalCompound where
  "iron = \<lparr>c_name = ''Iron'', c_energy = 3 / 10\<rparr>"

definition small_features :: "GeologicalFeature list" where
  "small_features =
     [\<lparr>f_name = ''Hydrothermal Vent'', f_compounds = [hydrogen_sulfide, iron], f_x = 2, f_y = 2\<rparr>,
      \<lparr>f_name = ''Methane Seep'', f_compounds = [methane], f_x = 0, f_y = 1\<rparr>,
      \<lparr>f_name = ''Hydrothermal Vent'', f_compounds = [hydrogen_sulfide, iron], f_x = 1, f_y = 0\<rparr>]"

definition small_organisms :: "Organism list" where
  "small_organisms =
     [\<lparr>o_name = ''Sulfur-oxidizing Microbe'', o_energy = 1, o_size = 1 / 100, o_x = 1, o_y = 1\<rparr>,
      \<lparr>o_name = ''Giant Tubeworm'', o_energy = 5, o_size = 1 / 10, o_x = 3, o_y = 3\<rparr>,
      \<lparr>o_name = ''Yeti Crab'', o_energy = 12, o_size = 1 / 20, o_x = 3, o_y = 2\<rparr>]"

definition small_world :: Ecosystem where
  "small_world =
     \<lparr>e_features = small_features, e_organisms = small_organisms, e_size = (5, 5),
      e_temperature_map = replicate 5 (replicate 5 10),
      e_pressure_map = generate_pressure_map (5, 5)\<rparr>"

definition zero_tape :: rng where
  "zero_tape = \<lparr>tape = (\<lambda>n. 0), pos = 0\<rparr>"

text \<open>
  A tubeworm and a crab one cell apart whose energies are the doubles written \<^verbatim>\<open>5.3\<close> and
  \<^verbatim>\<open>10.1\<close> in Python, and the same world after the crab has preyed on the tubeworm.
\<close>

definition rounding_world :: Ecosystem where
  "rounding_world =
     \<lparr>e_features = small_features,
      e_organisms =
        [\<lparr>o_name = ''Giant Tubeworm'', o_energy = 5967269506265907 / 1125899906842624,
          o_size = 1 / 10, o_x = 3, o_y = 3\<rparr>,
         \<lparr>o_name = ''Yeti Crab'', o_energy = 5685794529555251 / 562949953421312,
          o_size = 1 / 20, o_x = 3, o_y = 2\<rparr>],
      e_size = (5, 5),
      e_temperature_map = replicate 5 (replicate 5 10),
      e_pressure_map = generate_pressure_map (5, 5)\<rparr>"

definition rounding_world_after :: Ecosystem where
  "rounding_world_after = rounding_world\<lparr>e_organisms :=
        [\<lparr>o_name = ''Giant Tubeworm'', o_energy = 5967269506265907 / 2251799813685248,
          o_size = 1 / 10, o_x = 3, o_y = 3\<rparr>,
         \<lparr>o_name = ''Yeti Crab'', o_energy = 51 / 4,
          o_size = 1 / 20, o_x = 3, o_y = 2\<rparr>]\<rparr>"

text \<open>
  A world whose only organism is a Yeti Crab with energy 12, and the same world after the
  crab has foraged once with the draws of the zero tape.
\<close>

definition crab_world :: Ecosystem where
  "crab_world =
     \<lparr>e_features = small_features,
      e_organisms = [\<lparr>o_name = ''Yeti Crab'', o_energy = 12, o_size = 1 / 20, o_x = 3, o_y = 2\<rparr>],
      e_size = (5, 5),
      e_temperature_map = replicate 5 (replicate 5 10),
      e_pressure_map = generate_pressure_map (5, 5)\<rparr>"

definition fed_crab_world :: Ecosystem where
  "fed_crab_world = crab_world\<lparr>e_organisms :=
     [\<lparr>o_name = ''Yeti Crab'', o_energy = 19231 / 1600, o_size = 1 / 20, o_x = 2, o_y = 1\<rparr>]\<rparr>"

text \<open>
  A 2 by 2 world with one microbe, as \<^verbatim>\<open>__init__\<close> builds it from the zero tape, and the
  same world after one cycle.
\<close>

definition tiny_organisms :: "Organism list" where
  "tiny_organisms =
     [\<lparr>o_name = ''Sulfur-oxidizing Microbe'', o_energy = 1, o_size = 1 / 100, o_x = 1, o_y = 1\<rparr>]"

definition tiny_world :: Ecosystem where
  "tiny_world =
     \<lparr>e_features = small_features, e_organisms = tiny_organisms, e_size = (2, 2),
      e_temperature_map = [[5, 5], [5, 5]],
      e_pressure_map = [[100, 110], [100, 110]]\<rparr>"

definition tiny_world_after :: Ecosystem where
  "tiny_world_after = tiny_world\<lparr>e_organisms :=
     [\<lparr>o_name = ''Sulfur-oxidizing Microbe'', o_energy = 2007 / 2000, o_size = 1 / 100,
       o_x = 0, o_y = 0\<rparr>]\<rparr>"

text \<open>
  Two results agree up to the generator: the same exception, or the same ecosystem and
  events with generators that agree on the next \<open>n\<close> draws.
\<close>

definition results_agree ::
  "nat \<Rightarrow> error + (Ecosystem \<times> rng \<times> event list) \<Rightarrow> error + (Ecosystem \<times> rng \<times> event list) \<Rightarrow> bool" where
  "results_agree n r1 r2 =
     (case r1 of
        Inl err \<Rightarrow> r2 = Inl err
      | Inr (e1, g1, evs1) \<Rightarrow>
          (case r2 of
             Inl err \<Rightarrow> False
           | Inr (e2, g2, evs2) \<Rightarrow> e1 = e2 \<and> evs1 = evs2 \<and> tapes_agree n g1 g2))"

text \<open>A generator that differs from the zero tape from the eighth draw on.\<close>

definition late_tape :: rng where
  "late_tape = \<lparr>tape = (\<lambda>n. if n < 8 then 0 else 1), pos = 4\<rparr>"

section \<open>Metabolism\<close>

text \<open>
  C1. With a non-negative compound energy and a non-negative organism size, the energy
  gained returned by \<^verbatim>\<open>metabolize\<close> is never negative; at temperature 10 and pressure 200
  it is exactly the compound's energy times the organism's size, and the organism's
  energy grows by exactly that amount.
\<close>

theorem metabolize_gain:
  assumes "0 \<le> c_energy compound" and "0 \<le> o_size org"
  shows "0 \<le> snd (metabolize org compound temperature pressure)
       \<and> snd (metabolize org compound 10 200) = c_energy compound * o_size org
       \<and> o_energy (fst (metabolize org compound 10 200))
           = o_energy org + c_energy compound * o_size org"
proof -
  have "0 \<le> c_energy compound * o_size org"
    using assms by simp
  then have "0 \<le> c_energy compound * o_size org
       * max 0 (1 - \<bar>temperature - 10\<bar> / 20 - \<bar>pressure - 200\<bar> / 400)"
    by (rule mult_nonneg_nonneg) simp
  then show ?thesis
    by (simp add: metabolize_def Let_def)
qed

theorem metabolize_gain_witness:
  "0 \<le> snd (metabolize \<lparr>o_name = ''Giant Tubeworm'', o_energy = 5, o_size = 1 / 10, o_x = 3, o_y = 4\<rparr>
              \<lparr>c_name = ''Methane'', c_energy = 7 / 10\<rparr> 7 140)
   \<and> snd (metabolize \<lparr>o_name = ''Giant Tubeworm'', o_energy = 5, o_size = 1 / 10, o_x = 3, o_y = 4\<rparr>
              \<lparr>c_name = ''Methane'', c_energy = 7 / 10\<rparr> 10 200) = 7 / 100
   \<and> o_energy (fst (metabolize \<lparr>o_name = ''Giant Tubeworm'', o_energy = 5, o_size = 1 / 10, o_x = 3, o_y = 4\<rparr>
              \<lparr>c_name = ''Methane'', c_energy = 7 / 10\<rparr> 10 200)) = 507 / 100"
  using metabolize_gain [of "\<lparr>c_name = ''Methane'', c_energy = 7 / 10\<rparr>"
      "\<lparr>o_name = ''Giant Tubeworm'', o_energy = 5, o_size = 1 / 10, o_x = 3, o_y = 4\<rparr>" 7 140]
  by simp

section \<open>Movement\<close>

text \<open>
  C2. When the position before the move is inside the grid (\<open>0 \<le> x < width\<close>,
  \<open>0 \<le> y < height\<close>) and both deltas are in \<open>{-1, 0, 1}\<close>, \<^verbatim>\<open>move\<close> called with the grid's
  width and height succeeds and leaves the organism inside the grid.
\<close>

theorem move_in_bounds:
  assumes "0 \<le> o_x org" and "o_x org < width" and "0 \<le> o_y org" and "o_y org < height"
    and "dx \<in> {-1, 0, 1}" and "dy \<in> {-1, 0, 1}"
  shows "\<exists>org'. move org dx dy width height = Inr org'
       \<and> 0 \<le> o_x org' \<and> o_x org' < width \<and> 0 \<le> o_y org' \<and> o_y org' < height"
proof -
  have w: "0 < width" and h: "0 < height"
    using assms by linarith+
  then show ?thesis
    by (simp add: move_def)
qed

theorem move_in_bounds_witness:
  "\<exists>org'. move \<lparr>o_name = ''Yeti Crab'', o_energy = 3, o_size = 1 / 20, o_x = 49, o_y = 0\<rparr>
            1 (- 1) 50 50 = Inr org'
     \<and> o_x org' = 0 \<and> o_y org' = 49 \<and> 0 \<le> o_x org' \<and> o_x org' < 50 \<and> 0 \<le> o_y org' \<and> o_y org' < 50"
  using move_in_bounds [of "\<lparr>o_name = ''Yeti Crab'', o_energy = 3, o_size = 1 / 20, o_x = 49, o_y = 0\<rparr>"
      50 50 1 "- 1"]
  by (simp add: move_def)

section \<open>Nearest feature\<close>

lemma min_scan_first_min:
  "\<exists>ys zs. best # xs = ys @ min_scan k best xs # zs
     \<and> (\<forall>y \<in> set ys. k (min_scan k best xs) < k y)
     \<and> (\<forall>z \<in> set zs. k (min_scan k best xs) \<le> k z)"
proof (induction xs arbitrary: best)
  case Nil
  have "[best] = [] @ best # [] \<and> (\<forall>y \<in> set []. k best < k y) \<and> (\<forall>z \<in> set []. k best \<le> k z)"
    by simp
  then show ?case unfolding min_scan.simps by blast
next
  case (Cons x xs)
  define b where "b = (if k x < k best then x else best)"
  define r where "r = min_scan k b xs"
  from Cons.IH [of b] obtain ys zs where
    split: "b # xs = ys @ r # zs"
    and before: "\<forall>y \<in> set ys. k r < k y"
    and after: "\<forall>z \<in> set zs. k r \<le> k z"
    unfolding r_def by blast
  have r: "min_scan k best (x # xs) = r" by (simp add: r_def b_def)
  have "\<exists>ys zs. best # x # xs = ys @ r # zs
     \<and> (\<forall>y \<in> set ys. k r < k y) \<and> (\<forall>z \<in> set zs. k r \<le> k z)"
  proof (cases ys)
    case Nil
    with split have rb: "r = b" and zs: "zs = xs" by simp_all
    show ?thesis
    proof (cases "k x < k best")
      case True
      with rb have "r = x" by (simp add: b_def)
      with True zs after have "best # x # xs = [best] @ r # zs
          \<and> (\<forall>y \<in> set [best]. k r < k y) \<and> (\<forall>z \<in> set zs. k r \<le> k z)"
        by simp
      then show ?thesis by blast
    next
      case False
      with rb have "r = best" by (simp add: b_def)
      with False zs after have "best # x # xs = [] @ r # (x # xs)
          \<and> (\<forall>y \<in> set []. k r < k y) \<and> (\<forall>z \<in> set (x # xs). k r \<le> k z)"
        by auto
      then show ?thesis by blast
    qed
  next
    case (Cons y ys')
    with split have yb: "y = b" and xs: "xs = ys' @ r # zs" by simp_all
    from before Cons yb have lt: "k r < k b" by simp
    then have "k r < k best" "k r < k x" by (auto simp: b_def split: if_splits)
    with before Cons xs have "best # x # xs = (best # x # ys') @ r # zs
          \<and> (\<forall>y \<in> set (best # x # ys'). k r < k y)"
      by auto
    with after show ?thesis by blast
  qed
  then show ?case unfolding r .
qed

lemma py_min_first_min:
  assumes "xs \<noteq> []"
  shows "\<exists>i<length xs. py_min k xs = Inr (xs ! i)
     \<and> (\<forall>j<length xs. k (xs ! i) \<le> k (xs ! j))
     \<and> (\<forall>j<i. k (xs ! i) < k (xs ! j))"
proof -
  from assms obtain x rest where xs: "xs = x # rest"
    by (cases xs) auto
  define r where "r = min_scan k x rest"
  from min_scan_first_min [of x rest k] obtain ys zs where
    split: "xs = ys @ r # zs"
    and before: "\<forall>y \<in> set ys. k r < k y"
    and after: "\<forall>z \<in> set zs. k r \<le> k z"
    unfolding r_def xs by blast
  have res: "py_min k xs = Inr r"
    by (simp add: py_min_def xs r_def)
  have at: "xs ! length ys = r"
    by (simp add: split)
  have len: "length ys < length xs"
    by (simp add: split)
  have le: "k r \<le> k (xs ! j)" if "j < length xs" for j
  proof -
    have mem: "xs ! j \<in> set xs" using that by (rule nth_mem)
    have "set xs = set ys \<union> {r} \<union> set zs"
      by (simp add: split)
    with mem have "xs ! j \<in> set ys \<or> xs ! j = r \<or> xs ! j \<in> set zs"
      by blast
    with before after show ?thesis by force
  qed
  have lt: "k r < k (xs ! j)" if "j < length ys" for j
  proof -
    have "xs ! j = ys ! j" using that by (simp add: split nth_append)
    with that before show ?thesis by simp
  qed
  from res at len le lt show ?thesis by auto
qed

lemma first_min_unique:
  fixes a :: "nat \<Rightarrow> real"
  assumes "i < n" and "\<forall>j<n. a i \<le> a j" and "\<forall>j<i. a i < a j"
    and "i' < n" and "\<forall>j<n. a i' \<le> a j" and "\<forall>j<i'. a i' < a j"
  shows "i = i'"
proof (rule ccontr)
  assume "i \<noteq> i'"
  then consider "i < i'" | "i' < i" by linarith
  then show False
  proof cases
    case 1
    with assms have "a i' < a i" "a i \<le> a i'" by auto
    then show False by simp
  next
    case 2
    with assms have "a i < a i'" "a i' \<le> a i" by auto
    then show False by simp
  qed
qed

text \<open>
  C4. For a non-empty feature list, \<^verbatim>\<open>get_nearby_feature\<close> returns the feature at the
  least index whose Euclidean distance to the organism is minimal: no feature is nearer,
  and every feature before it is strictly farther. The index depends only on the positions
  of the features and of the organism: any other ecosystem and organism with the same
  positions give the feature at the same index. The function takes no random source.
\<close>

theorem get_nearby_feature_nearest:
  assumes "e_features e \<noteq> []"
  shows "\<exists>i<length (e_features e).
      get_nearby_feature e organism = Inr (e_features e ! i)
    \<and> (\<forall>j<length (e_features e).
          feature_distance (e_features e ! i) organism \<le> feature_distance (e_features e ! j) organism)
    \<and> (\<forall>j<i. feature_distance (e_features e ! i) organism < feature_distance (e_features e ! j) organism)
    \<and> (\<forall>e' organism'.
          map (\<lambda>f. (f_x f, f_y f)) (e_features e') = map (\<lambda>f. (f_x f, f_y f)) (e_features e)
          \<and> o_x organism' = o_x organism \<and> o_y organism' = o_y organism
          \<longrightarrow> get_nearby_feature e' organism' = Inr (e_features e' ! i))"
proof -
  let ?fs = "e_features e"
  let ?k = "\<lambda>f. feature_distance f organism"
  have gnf: "get_nearby_feature e1 o1 = py_min (\<lambda>f. feature_distance f o1) (e_features e1)" for e1 o1
    by (simp add: get_nearby_feature_def feature_distance_def)
  from py_min_first_min [OF assms, of ?k] obtain i where
    i: "i < length ?fs" and res: "py_min ?k ?fs = Inr (?fs ! i)"
    and le: "\<forall>j<length ?fs. ?k (?fs ! i) \<le> ?k (?fs ! j)"
    and lt: "\<forall>j<i. ?k (?fs ! i) < ?k (?fs ! j)"
    by blast
  have pure: "get_nearby_feature e' organism' = Inr (e_features e' ! i)"
    if pos: "map (\<lambda>f. (f_x f, f_y f)) (e_features e') = map (\<lambda>f. (f_x f, f_y f)) ?fs"
      and ox: "o_x organism' = o_x organism" and oy: "o_y organism' = o_y organism"
    for e' organism'
  proof -
    let ?fs' = "e_features e'"
    let ?k' = "\<lambda>f. feature_distance f organism'"
    from pos have len: "length ?fs' = length ?fs"
      by (rule map_eq_imp_length_eq)
    have same: "?k' (?fs' ! j) = ?k (?fs ! j)" if "j < length ?fs" for j
    proof -
      from that len have "map (\<lambda>f. (f_x f, f_y f)) ?fs' ! j = map (\<lambda>f. (f_x f, f_y f)) ?fs ! j"
        using pos by simp
      with that len have "f_x (?fs' ! j) = f_x (?fs ! j) \<and> f_y (?fs' ! j) = f_y (?fs ! j)"
        by simp
      then show ?thesis by (simp add: feature_distance_def ox oy)
    qed
    from assms len have ne: "?fs' \<noteq> []" by auto
    from py_min_first_min [OF ne, of ?k'] obtain i' where
      i': "i' < length ?fs'" and res': "py_min ?k' ?fs' = Inr (?fs' ! i')"
      and le': "\<forall>j<length ?fs'. ?k' (?fs' ! i') \<le> ?k' (?fs' ! j)"
      and lt': "\<forall>j<i'. ?k' (?fs' ! i') < ?k' (?fs' ! j)"
      by blast
    have "i = i'"
    proof (rule first_min_unique [where a = "\<lambda>j. ?k (?fs ! j)" and n = "length ?fs"])
      show "i < length ?fs" by (rule i)
      show "\<forall>j<length ?fs. ?k (?fs ! i) \<le> ?k (?fs ! j)" by (rule le)
      show "\<forall>j<i. ?k (?fs ! i) < ?k (?fs ! j)" by (rule lt)
      show "i' < length ?fs" using i' len by simp
      show "\<forall>j<length ?fs. ?k (?fs ! i') \<le> ?k (?fs ! j)"
        using le' i' len same by simp
      show "\<forall>j<i'. ?k (?fs ! i') < ?k (?fs ! j)"
        using lt' i' len same by simp
    qed
    with res' show ?thesis by (simp add: gnf)
  qed
  from i res le lt pure show ?thesis
    unfolding gnf by blast
qed

theorem get_nearby_feature_nearest_witness:
  "e_features small_world \<noteq> []
   \<and> get_nearby_feature small_world (small_organisms ! 0) = Inr (small_features ! 1)
   \<and> (\<exists>i<length (e_features small_world).
      get_nearby_feature small_world (small_organisms ! 0) = Inr (e_features small_world ! i)
    \<and> (\<forall>j<i. feature_distance (e_features small_world ! i) (small_organisms ! 0)
               < feature_distance (e_features small_world ! j) (small_organisms ! 0)))"
proof -
  have ne: "e_features small_world \<noteq> []"
    by (simp add: small_world_def small_features_def)
  have val: "get_nearby_feature small_world (small_organisms ! 0) = Inr (small_features ! 1)"
    by (simp add: get_nearby_feature_def py_min_def small_world_def small_features_def
        small_organisms_def distance_def)
  from get_nearby_feature_nearest [OF ne, of "small_organisms ! 0"] ne val
  show ?thesis by blast
qed

section \<open>Predation\<close>

lemma distance_less_2: "distance ax ay bx by < 2 \<longleftrightarrow> (ax - bx) ^ 2 + (ay - by) ^ 2 < 4"
proof -
  define d where "d = (ax - bx) ^ 2 + (ay - by) ^ 2"
  have "sqrt (real_of_int d) < sqrt 4 \<longleftrightarrow> real_of_int d < 4"
    by (rule real_sqrt_less_iff)
  moreover have "sqrt 4 = 2"
    using real_sqrt_abs [of 2] by simp
  moreover have "real_of_int d < 4 \<longleftrightarrow> d < 4"
    by linarith
  ultimately show ?thesis
    by (simp add: distance_def d_def del: real_sqrt_less_iff of_int_add of_int_power of_int_diff)
qed

lemma choice_mem: "choice xs g = Inr (x, g1) \<Longrightarrow> x \<in> set xs"
  by (auto simp: choice_def next_raw_def split: if_splits)

lemma prey_indices_mem:
  "j \<in> set (prey_indices e) \<longleftrightarrow> j < length (e_organisms e) \<and> o_name (e_organisms e ! j) = ''Giant Tubeworm''"
  by (auto simp: prey_indices_def)

section \<open>Rounding to a double\<close>

lemma pow2_powr: "pow2 k = 2 powr real_of_int k"
proof (cases "0 \<le> k")
  case True
  then have "2 powr real_of_int k = (2::real) ^ nat k"
    by (simp add: powr_real_of_int)
  with True show ?thesis by (simp add: pow2_def)
next
  case False
  then have "2 powr real_of_int k = inverse ((2::real) ^ nat (- k))"
    by (simp add: powr_real_of_int)
  with False show ?thesis by (simp add: pow2_def inverse_eq_divide)
qed

lemma pow2_pos: "0 < pow2 k"
  by (simp add: pow2_powr)

lemma pow2_pred: "pow2 (k - 1) = pow2 k / 2"
  by (simp add: pow2_powr powr_diff)

lemma double_ulp_pos: "0 < double_ulp x"
  by (simp add: double_ulp_def pow2_pos)

lemma round_half_even_error: "\<bar>real_of_int (round_half_even q) - q\<bar> \<le> 1 / 2"
  unfolding round_half_even_def by (auto simp: abs_if) linarith+

lemma round_half_even_of_int: "round_half_even (real_of_int n) = n"
  by (simp add: round_half_even_def)

lemma round_double_error: "\<bar>round_double x - x\<bar> \<le> double_ulp x / 2"
proof (cases "x = 0")
  case True
  then show ?thesis
    using double_ulp_pos [of x] by (simp add: round_double_def)
next
  case False
  define u where "u = double_ulp x"
  define n where "n = round_half_even (x / u)"
  have u: "0 < u" by (simp add: u_def double_ulp_pos)
  have "\<bar>real_of_int n - x / u\<bar> \<le> 1 / 2"
    unfolding n_def by (rule round_half_even_error)
  then have "\<bar>real_of_int n - x / u\<bar> * u \<le> 1 / 2 * u"
    using u by (simp add: mult_right_mono)
  moreover have "\<bar>real_of_int n - x / u\<bar> * u = \<bar>real_of_int n * u - x\<bar>"
  proof -
    have "\<bar>real_of_int n - x / u\<bar> * u = \<bar>(real_of_int n - x / u) * u\<bar>"
      using u by (simp add: abs_mult)
    also have "(real_of_int n - x / u) * u = real_of_int n * u - x"
      using u by (simp add: left_diff_distrib)
    finally show ?thesis .
  qed
  ultimately have "\<bar>real_of_int n * u - x\<bar> \<le> u / 2" by simp
  with False show ?thesis
    by (simp add: round_double_def n_def u_def)
qed

lemma double_exponent_eq:
  assumes "pow2 k \<le> \<bar>x\<bar>" and "\<bar>x\<bar> < pow2 (k + 1)" and "- 1022 \<le> k"
  shows "double_exponent x = k"
proof -
  have pos: "0 < \<bar>x\<bar>"
    using assms(1) pow2_pos [of k] by linarith
  have "\<lfloor>log 2 \<bar>x\<bar>\<rfloor> = k"
    using assms(1,2) pos by (simp add: floor_log_eq_powr_iff pow2_powr)
  with assms(3) show ?thesis
    by (simp add: double_exponent_def)
qed

lemma round_double_half:
  assumes rep: "round_double x = x" and big: "pow2 (- 1021) \<le> \<bar>x\<bar>"
  shows "round_double (x / 2) = x / 2"
proof -
  have nz: "x \<noteq> 0"
    using big pow2_pos [of "- 1021"] by auto
  define k where "k = \<lfloor>log 2 \<bar>x\<bar>\<rfloor>"
  have kx: "pow2 k \<le> \<bar>x\<bar>" "\<bar>x\<bar> < pow2 (k + 1)"
    using nz floor_log_eq_powr_iff [of "\<bar>x\<bar>" 2 k] by (simp_all add: k_def pow2_powr)
  have "pow2 (- 1021) < pow2 (k + 1)"
    using big kx(2) by linarith
  then have "- 1021 < k + 1"
    by (simp add: pow2_powr)
  then have k: "- 1021 \<le> k" by simp
  then have ex: "double_exponent x = k"
    using kx by (intro double_exponent_eq) simp_all
  have succ: "pow2 (k + 1) = pow2 k * 2"
    using pow2_pred [of "k + 1"] by simp
  have "pow2 (k - 1) \<le> \<bar>x / 2\<bar>" "\<bar>x / 2\<bar> < pow2 (k - 1 + 1)"
    using kx by (simp_all add: pow2_pred succ)
  then have ex2: "double_exponent (x / 2) = k - 1"
    using k by (intro double_exponent_eq) simp_all
  define u where "u = double_ulp x"
  define n where "n = round_half_even (x / u)"
  have u: "0 < u" by (simp add: u_def double_ulp_pos)
  have u2: "double_ulp (x / 2) = u / 2"
    using pow2_pred [of "k - 52"] by (simp add: double_ulp_def u_def ex ex2 algebra_simps)
  have x: "x = real_of_int n * u"
    using rep nz by (simp add: round_double_def n_def u_def)
  have "x / 2 / (u / 2) = real_of_int n"
    using u by (simp add: x)
  then have "round_half_even (x / 2 / double_ulp (x / 2)) = n"
    by (simp add: u2 round_half_even_of_int)
  then have "round_double (x / 2) = real_of_int n * (u / 2)"
    using nz by (simp add: round_double_def u2)
  with x show ?thesis by simp
qed

lemma round_double_eval:
  assumes "pow2 k \<le> \<bar>x\<bar>" and "\<bar>x\<bar> < pow2 (k + 1)" and "- 1022 \<le> k"
  shows "round_double x = real_of_int (round_half_even (x / pow2 (k - 52))) * pow2 (k - 52)"
proof -
  have "x \<noteq> 0"
    using assms(1) pow2_pos [of k] by auto
  moreover have "double_ulp x = pow2 (k - 52)"
    using double_exponent_eq [OF assms] by (simp add: double_ulp_def)
  ultimately show ?thesis
    by (simp add: round_double_def)
qed

lemma round_double_2_65:
  "round_double (5967269506265907 / 2251799813685248) = 5967269506265907 / 2251799813685248"
proof -
  have "round_double (5967269506265907 / 2251799813685248)
      = real_of_int (round_half_even (5967269506265907 / 2251799813685248 / pow2 (1 - 52))) * pow2 (1 - 52)"
    by (rule round_double_eval) (simp_all add: pow2_def)
  also have "\<dots> = 5967269506265907 / 2251799813685248"
    by (simp add: pow2_def round_half_even_def)
  finally show ?thesis .
qed

lemma round_double_12_75:
  "round_double (28710447624486911 / 2251799813685248) = 51 / 4"
proof -
  have "round_double (28710447624486911 / 2251799813685248)
      = real_of_int (round_half_even (28710447624486911 / 2251799813685248 / pow2 (3 - 52))) * pow2 (3 - 52)"
    by (rule round_double_eval) (simp_all add: pow2_def)
  also have "\<dots> = 51 / 4"
    by (simp add: pow2_def round_half_even_def)
  finally show ?thesis .
qed

lemma round_double_sum_after:
  "round_double (34677717130752819 / 2251799813685248) = 8669429282688205 / 562949953421312"
proof -
  have "round_double (34677717130752819 / 2251799813685248)
      = real_of_int (round_half_even (34677717130752819 / 2251799813685248 / pow2 (3 - 52))) * pow2 (3 - 52)"
    by (rule round_double_eval) (simp_all add: pow2_def)
  also have "\<dots> = 8669429282688205 / 562949953421312"
    by (simp add: pow2_def round_half_even_def)
  finally show ?thesis .
qed

lemma round_double_sum_before:
  "round_double (17338858565376409 / 1125899906842624) = 8669429282688204 / 562949953421312"
proof -
  have "round_double (17338858565376409 / 1125899906842624)
      = real_of_int (round_half_even (17338858565376409 / 1125899906842624 / pow2 (3 - 52))) * pow2 (3 - 52)"
    by (rule round_double_eval) (simp_all add: pow2_def)
  also have "\<dots> = 8669429282688204 / 562949953421312"
    by (simp add: pow2_def round_half_even_def)
  finally show ?thesis .
qed

section \<open>The predation transfer\<close>

lemma choice_rounding_world:
  "choice (prey_indices rounding_world) zero_tape = Inr (0, zero_tape\<lparr>pos := 1\<rparr>)"
  by (simp add: choice_def prey_indices_def next_raw_def rounding_world_def zero_tape_def)

lemma predation_rounding_world:
  "predation rounding_world 1 zero_tape
     = Inr (rounding_world_after, zero_tape\<lparr>pos := 1\<rparr>, [Preyed ''Yeti Crab'' ''Giant Tubeworm''])"
proof -
  have os: "e_organisms rounding_world =
        [\<lparr>o_name = ''Giant Tubeworm'', o_energy = 5967269506265907 / 1125899906842624,
          o_size = 1 / 10, o_x = 3, o_y = 3\<rparr>,
         \<lparr>o_name = ''Yeti Crab'', o_energy = 5685794529555251 / 562949953421312,
          o_size = 1 / 20, o_x = 3, o_y = 2\<rparr>]"
    by (simp add: rounding_world_def)
  have near: "distance 3 3 3 2 < 2"
    by (simp add: distance_less_2)
  show ?thesis
    unfolding predation_def choice_rounding_world os
    using near
    by (simp add: Let_def float_add_def float_div_def round_double_2_65 round_double_12_75
        rounding_world_after_def)
qed

text \<open>
  C3, as the code has it. When the predation test fires (the organism at index \<open>i\<close> is a
  Yeti Crab with energy \<open>P\<close> above 10, and the prey drawn from the Giant Tubeworms, with
  energy \<open>E\<close>, is at distance below 2) and the energies are far from overflow: the prey's
  energy becomes \<open>E / 2\<close> rounded to a double, which is exactly \<open>E / 2\<close> when \<open>E\<close> is a double
  of magnitude at least \<open>2\<^sup>-\<^sup>1\<^sup>0\<^sup>2\<^sup>1\<close>; the predator's energy becomes \<open>P\<close> plus that half,
  rounded to the nearest double. So the predator's gain and the sum of the two energies
  equal \<open>E / 2\<close> and \<open>P + E\<close> only up to the rounding of that addition: when the halving is
  exact the sum moves by at most half a unit in the last place of \<open>P + E / 2\<close>.
\<close>

theorem predation_transfer_rounded:
  assumes len: "i < length (e_organisms e)"
    and crab: "o_name (e_organisms e ! i) = ''Yeti Crab''"
    and rich: "10 < o_energy (e_organisms e ! i)"
    and pick: "choice (prey_indices e) g = Inr (j, g1)"
    and near: "distance (o_x (e_organisms e ! j)) (o_y (e_organisms e ! j))
                 (o_x (e_organisms e ! i)) (o_y (e_organisms e ! i)) < 2"
    and finite: "\<bar>o_energy (e_organisms e ! i)\<bar> + \<bar>o_energy (e_organisms e ! j)\<bar> < pow2 1023"
  shows "\<exists>e'. predation e i g = Inr (e', g1, [Preyed ''Yeti Crab'' ''Giant Tubeworm''])
     \<and> o_energy (e_organisms e' ! j) = round_double (o_energy (e_organisms e ! j) / 2)
     \<and> o_energy (e_organisms e' ! i)
         = round_double (o_energy (e_organisms e ! i) + o_energy (e_organisms e' ! j))
     \<and> (round_double (o_energy (e_organisms e ! j)) = o_energy (e_organisms e ! j)
          \<and> pow2 (- 1021) \<le> \<bar>o_energy (e_organisms e ! j)\<bar>
          \<longrightarrow> o_energy (e_organisms e' ! j) = o_energy (e_organisms e ! j) / 2)
     \<and> (o_energy (e_organisms e' ! j) = o_energy (e_organisms e ! j) / 2
          \<longrightarrow> \<bar>(o_energy (e_organisms e' ! i) + o_energy (e_organisms e' ! j))
                - (o_energy (e_organisms e ! i) + o_energy (e_organisms e ! j))\<bar>
              \<le> double_ulp (o_energy (e_organisms e ! i) + o_energy (e_organisms e ! j) / 2) / 2)"
proof -
  define P where "P = o_energy (e_organisms e ! i)"
  define E where "E = o_energy (e_organisms e ! j)"
  from pick have "j \<in> set (prey_indices e)" by (rule choice_mem)
  then have j: "j < length (e_organisms e)" and worm: "o_name (e_organisms e ! j) = ''Giant Tubeworm''"
    by (simp_all add: prey_indices_mem)
  from crab worm have ne: "i \<noteq> j" by auto
  define os1 where "os1 = (e_organisms e)[i := (e_organisms e ! i)
      \<lparr>o_energy := float_add P (float_div E 2)\<rparr>]"
  define os2 where "os2 = os1[j := (os1 ! j)\<lparr>o_energy := float_div (o_energy (os1 ! j)) 2\<rparr>]"
  have res: "predation e i g = Inr (e\<lparr>e_organisms := os2\<rparr>, g1, [Preyed ''Yeti Crab'' ''Giant Tubeworm''])"
    using crab rich pick near worm by (simp add: predation_def Let_def os1_def os2_def P_def E_def)
  have j2: "o_energy (os2 ! j) = round_double (E / 2)"
    using len j ne by (simp add: os2_def os1_def float_div_def E_def)
  have i2: "o_energy (os2 ! i) = round_double (P + round_double (E / 2))"
    using len j ne by (simp add: os2_def os1_def float_add_def float_div_def)
  have exact: "round_double (E / 2) = E / 2" if "round_double E = E" and "pow2 (- 1021) \<le> \<bar>E\<bar>"
    using that by (rule round_double_half)
  have sum: "\<bar>(round_double (P + E / 2) + E / 2) - (P + E)\<bar> \<le> double_ulp (P + E / 2) / 2"
  proof -
    have "(round_double (P + E / 2) + E / 2) - (P + E) = round_double (P + E / 2) - (P + E / 2)"
      by simp
    then show ?thesis
      using round_double_error [of "P + E / 2"] by (simp only:)
  qed
  define e' where "e' = e\<lparr>e_organisms := os2\<rparr>"
  have j3: "o_energy (e_organisms e' ! j) = round_double (E / 2)"
    by (simp add: e'_def j2)
  have i3: "o_energy (e_organisms e' ! i) = round_double (P + o_energy (e_organisms e' ! j))"
    by (simp add: e'_def i2 j2)
  have c3: "round_double E = E \<and> pow2 (- 1021) \<le> \<bar>E\<bar> \<longrightarrow> o_energy (e_organisms e' ! j) = E / 2"
    using exact by (simp add: j3)
  have c4: "o_energy (e_organisms e' ! j) = E / 2
      \<longrightarrow> \<bar>(o_energy (e_organisms e' ! i) + o_energy (e_organisms e' ! j)) - (P + E)\<bar>
            \<le> double_ulp (P + E / 2) / 2"
  proof
    assume half: "o_energy (e_organisms e' ! j) = E / 2"
    with i3 have "o_energy (e_organisms e' ! i) = round_double (P + E / 2)"
      by simp
    with half sum show "\<bar>(o_energy (e_organisms e' ! i) + o_energy (e_organisms e' ! j)) - (P + E)\<bar>
            \<le> double_ulp (P + E / 2) / 2"
      by (simp only:)
  qed
  from res have res': "predation e i g = Inr (e', g1, [Preyed ''Yeti Crab'' ''Giant Tubeworm''])"
    by (simp add: e'_def)
  from res' j3 i3 c3 c4 show ?thesis
    unfolding P_def E_def by blast
qed

theorem predation_transfer_rounded_witness:
  "1 < length (e_organisms rounding_world)
   \<and> o_name (e_organisms rounding_world ! 1) = ''Yeti Crab''
   \<and> 10 < o_energy (e_organisms rounding_world ! 1)
   \<and> choice (prey_indices rounding_world) zero_tape = Inr (0, zero_tape\<lparr>pos := 1\<rparr>)
   \<and> distance (o_x (e_organisms rounding_world ! 0)) (o_y (e_organisms rounding_world ! 0))
        (o_x (e_organisms rounding_world ! 1)) (o_y (e_organisms rounding_world ! 1)) < 2
   \<and> \<bar>o_energy (e_organisms rounding_world ! 1)\<bar> + \<bar>o_energy (e_organisms rounding_world ! 0)\<bar>
        < pow2 1023
   \<and> (\<exists>e'. predation rounding_world 1 zero_tape
             = Inr (e', zero_tape\<lparr>pos := 1\<rparr>, [Preyed ''Yeti Crab'' ''Giant Tubeworm''])
        \<and> o_energy (e_organisms e' ! 0) = 5967269506265907 / 2251799813685248
        \<and> o_energy (e_organisms e' ! 1) = 51 / 4)"
proof -
  have os: "e_organisms rounding_world =
        [\<lparr>o_name = ''Giant Tubeworm'', o_energy = 5967269506265907 / 1125899906842624,
          o_size = 1 / 10, o_x = 3, o_y = 3\<rparr>,
         \<lparr>o_name = ''Yeti Crab'', o_energy = 5685794529555251 / 562949953421312,
          o_size = 1 / 20, o_x = 3, o_y = 2\<rparr>]"
    by (simp add: rounding_world_def)
  have h1: "1 < length (e_organisms rounding_world)"
    by (simp add: os)
  have h2: "o_name (e_organisms rounding_world ! 1) = ''Yeti Crab''"
    by (simp add: os)
  have h3: "10 < o_energy (e_organisms rounding_world ! 1)"
    by (simp add: os)
  have h5: "distance (o_x (e_organisms rounding_world ! 0)) (o_y (e_organisms rounding_world ! 0))
        (o_x (e_organisms rounding_world ! 1)) (o_y (e_organisms rounding_world ! 1)) < 2"
    by (simp add: os distance_less_2)
  have h6: "\<bar>o_energy (e_organisms rounding_world ! 1)\<bar> + \<bar>o_energy (e_organisms rounding_world ! 0)\<bar>
        < pow2 1023"
    by (simp add: os pow2_def)
  from predation_transfer_rounded [OF h1 h2 h3 choice_rounding_world h5 h6] obtain e' where
    res: "predation rounding_world 1 zero_tape
       = Inr (e', zero_tape\<lparr>pos := 1\<rparr>, [Preyed ''Yeti Crab'' ''Giant Tubeworm''])"
    and prey: "o_energy (e_organisms e' ! 0) = round_double (o_energy (e_organisms rounding_world ! 0) / 2)"
    and pred: "o_energy (e_organisms e' ! 1)
         = round_double (o_energy (e_organisms rounding_world ! 1) + o_energy (e_organisms e' ! 0))"
    by blast
  from prey have prey': "o_energy (e_organisms e' ! 0) = 5967269506265907 / 2251799813685248"
    by (simp add: os round_double_2_65)
  from pred have "o_energy (e_organisms e' ! 1) = 51 / 4"
    unfolding prey' by (simp add: os round_double_12_75)
  with res prey' have "\<exists>e'. predation rounding_world 1 zero_tape
             = Inr (e', zero_tape\<lparr>pos := 1\<rparr>, [Preyed ''Yeti Crab'' ''Giant Tubeworm''])
        \<and> o_energy (e_organisms e' ! 0) = 5967269506265907 / 2251799813685248
        \<and> o_energy (e_organisms e' ! 1) = 51 / 4"
    by blast
  with h1 h2 h3 choice_rounding_world h5 h6 show ?thesis by blast
qed

text \<open>
  C3 as claimed fails: with \<open>P\<close> the double \<^verbatim>\<open>10.1\<close> and \<open>E\<close> the double \<^verbatim>\<open>5.3\<close> the predator's
  energy becomes \<open>12.75\<close>, which is not \<open>P + E / 2\<close>, and the sum of the two energies changes,
  both as an exact sum and as the double that \<^verbatim>\<open>+\<close> returns (\<^verbatim>\<open>15.4\<close> after,
  \<^verbatim>\<open>15.399999999999999\<close> before).
\<close>

theorem predation_sum_counterexample:
  "o_name (e_organisms rounding_world ! 1) = ''Yeti Crab''
   \<and> 10 < o_energy (e_organisms rounding_world ! 1)
   \<and> choice (prey_indices rounding_world) zero_tape = Inr (0, zero_tape\<lparr>pos := 1\<rparr>)
   \<and> distance (o_x (e_organisms rounding_world ! 0)) (o_y (e_organisms rounding_world ! 0))
        (o_x (e_organisms rounding_world ! 1)) (o_y (e_organisms rounding_world ! 1)) < 2
   \<and> predation rounding_world 1 zero_tape
        = Inr (rounding_world_after, zero_tape\<lparr>pos := 1\<rparr>, [Preyed ''Yeti Crab'' ''Giant Tubeworm''])
   \<and> o_energy (e_organisms rounding_world_after ! 1) - o_energy (e_organisms rounding_world ! 1)
        \<noteq> o_energy (e_organisms rounding_world ! 0) / 2
   \<and> o_energy (e_organisms rounding_world_after ! 1) + o_energy (e_organisms rounding_world_after ! 0)
        \<noteq> o_energy (e_organisms rounding_world ! 1) + o_energy (e_organisms rounding_world ! 0)
   \<and> float_add (o_energy (e_organisms rounding_world_after ! 1))
        (o_energy (e_organisms rounding_world_after ! 0))
        \<noteq> float_add (o_energy (e_organisms rounding_world ! 1))
            (o_energy (e_organisms rounding_world ! 0))"
proof -
  have os: "e_organisms rounding_world =
        [\<lparr>o_name = ''Giant Tubeworm'', o_energy = 5967269506265907 / 1125899906842624,
          o_size = 1 / 10, o_x = 3, o_y = 3\<rparr>,
         \<lparr>o_name = ''Yeti Crab'', o_energy = 5685794529555251 / 562949953421312,
          o_size = 1 / 20, o_x = 3, o_y = 2\<rparr>]"
    by (simp add: rounding_world_def)
  have os': "e_organisms rounding_world_after =
        [\<lparr>o_name = ''Giant Tubeworm'', o_energy = 5967269506265907 / 2251799813685248,
          o_size = 1 / 10, o_x = 3, o_y = 3\<rparr>,
         \<lparr>o_name = ''Yeti Crab'', o_energy = 51 / 4,
          o_size = 1 / 20, o_x = 3, o_y = 2\<rparr>]"
    by (simp add: rounding_world_after_def)
  have "o_name (e_organisms rounding_world ! 1) = ''Yeti Crab''"
    and "10 < o_energy (e_organisms rounding_world ! 1)"
    and "distance (o_x (e_organisms rounding_world ! 0)) (o_y (e_organisms rounding_world ! 0))
        (o_x (e_organisms rounding_world ! 1)) (o_y (e_organisms rounding_world ! 1)) < 2"
    and "o_energy (e_organisms rounding_world_after ! 1) - o_energy (e_organisms rounding_world ! 1)
        \<noteq> o_energy (e_organisms rounding_world ! 0) / 2"
    and "o_energy (e_organisms rounding_world_after ! 1) + o_energy (e_organisms rounding_world_after ! 0)
        \<noteq> o_energy (e_organisms rounding_world ! 1) + o_energy (e_organisms rounding_world ! 0)"
    by (simp_all add: os os' distance_less_2)
  moreover have "float_add (o_energy (e_organisms rounding_world_after ! 1))
        (o_energy (e_organisms rounding_world_after ! 0))
        \<noteq> float_add (o_energy (e_organisms rounding_world ! 1))
            (o_energy (e_organisms rounding_world ! 0))"
    by (simp add: os os' float_add_def round_double_sum_after round_double_sum_before)
  ultimately show ?thesis
    using choice_rounding_world predation_rounding_world by blast
qed

section \<open>Predation without prey\<close>

lemma cycle_loop_append:
  "cycle_loop (xs @ ys) e g =
     (case cycle_loop xs e g of
        Inl err \<Rightarrow> Inl err
      | Inr (e1, g1, evs1) \<Rightarrow>
          (case cycle_loop ys e1 g1 of
             Inl err \<Rightarrow> Inl err
           | Inr (e2, g2, evs2) \<Rightarrow> Inr (e2, g2, evs1 @ evs2)))"
  by (induction xs arbitrary: e g) (auto split: sum.splits)

lemma choice_Nil: "choice [] g = Inl IndexError"
  by (simp add: choice_def)

lemma forage_crab_world:
  "forage crab_world 0 zero_tape
     = Inr (fed_crab_world, zero_tape\<lparr>pos := 3\<rparr>,
            [Foraged ''Yeti Crab'' 2 1 (31 / 1600) ''Hydrogen Sulfide'' ''Hydrothermal Vent''])"
proof -
  have three: "(3::nat) = Suc (Suc (Suc 0))"
    by simp
  have "forage crab_world 0 zero_tape
     = Inr (fed_crab_world, zero_tape\<lparr>pos := Suc (Suc (Suc 0))\<rparr>,
            [Foraged ''Yeti Crab'' 2 1 (31 / 1600) ''Hydrogen Sulfide'' ''Hydrothermal Vent''])"
    by (simp add: forage_def crab_world_def fed_crab_world_def zero_tape_def randint_def next_raw_def
      move_def get_nearby_feature_def py_min_def small_features_def distance_def choice_def
      py_index2_def py_index_def generate_pressure_map_def metabolize_def hydrogen_sulfide_def
      Let_def)
  then show ?thesis
    unfolding three .
qed

lemma prey_indices_fed_crab_world: "prey_indices fed_crab_world = []"
  by (simp add: prey_indices_def fed_crab_world_def crab_world_def)

text \<open>
  C5, as the code has it. In a cycle that reaches an organism which, after foraging, is a
  Yeti Crab with energy above 10 while no organism is a Giant Tubeworm, the selection of the
  prey raises IndexError: the predation test does not complete and the cycle ends with that
  exception (no energy is transferred, and the organisms after it are not processed).
\<close>

theorem predation_empty_prey_raises:
  assumes "i < length (e_organisms e)"
    and "cycle_loop [0..<i] e g = Inr (e0, g0, evs0)"
    and "forage e0 i g0 = Inr (e1, g1, evs1)"
    and "o_name (e_organisms e1 ! i) = ''Yeti Crab''"
    and "10 < o_energy (e_organisms e1 ! i)"
    and "prey_indices e1 = []"
  shows "predation e1 i g1 = Inl IndexError \<and> simulate_cycle e g = Inl IndexError"
proof -
  have pred: "predation e1 i g1 = Inl IndexError"
    using assms(4-6) by (simp add: predation_def choice_Nil)
  with assms(3) have "process_organism e0 i g0 = Inl IndexError"
    by (simp add: process_organism_def)
  then have "cycle_loop (i # [Suc i..<length (e_organisms e)]) e0 g0 = Inl IndexError"
    by simp
  moreover have "[0..<length (e_organisms e)] = [0..<i] @ i # [Suc i..<length (e_organisms e)]"
  proof -
    have "[0..<length (e_organisms e)] = [0..<i] @ [i..<length (e_organisms e)]"
      using assms(1) upt_add_eq_append [of 0 i "length (e_organisms e) - i"] by simp
    also have "[i..<length (e_organisms e)] = i # [Suc i..<length (e_organisms e)]"
      using assms(1) by (rule upt_conv_Cons)
    finally show ?thesis .
  qed
  ultimately have "simulate_cycle e g = Inl IndexError"
    using assms(2) by (simp add: simulate_cycle_def cycle_loop_append)
  with pred show ?thesis by simp
qed

theorem predation_empty_prey_raises_witness:
  "0 < length (e_organisms crab_world)
   \<and> cycle_loop [0..<0] crab_world zero_tape = Inr (crab_world, zero_tape, [])
   \<and> o_name (e_organisms fed_crab_world ! 0) = ''Yeti Crab''
   \<and> 10 < o_energy (e_organisms fed_crab_world ! 0)
   \<and> prey_indices fed_crab_world = []
   \<and> predation fed_crab_world 0 (zero_tape\<lparr>pos := 3\<rparr>) = Inl IndexError
   \<and> simulate_cycle crab_world zero_tape = Inl IndexError"
proof -
  have h1: "0 < length (e_organisms crab_world)"
    by (simp add: crab_world_def)
  have h2: "cycle_loop [0..<0] crab_world zero_tape = Inr (crab_world, zero_tape, [])"
    by simp
  have h4: "o_name (e_organisms fed_crab_world ! 0) = ''Yeti Crab''"
    by (simp add: fed_crab_world_def)
  have h5: "10 < o_energy (e_organisms fed_crab_world ! 0)"
    by (simp add: fed_crab_world_def)
  from predation_empty_prey_raises [OF h1 h2 forage_crab_world h4 h5 prey_indices_fed_crab_world]
    h1 h2 h4 h5 prey_indices_fed_crab_world
  show ?thesis by simp
qed

text \<open>
  C5 as claimed fails: a cycle over a single eligible Yeti Crab and no Giant Tubeworm does
  not complete, it raises IndexError.
\<close>

theorem empty_prey_cycle_counterexample:
  "o_name (e_organisms crab_world ! 0) = ''Yeti Crab''
   \<and> 10 < o_energy (e_organisms crab_world ! 0)
   \<and> filter (\<lambda>org. o_name org = ''Giant Tubeworm'') (e_organisms crab_world) = []
   \<and> simulate_cycle crab_world zero_tape = Inl IndexError"
proof -
  have "o_name (e_organisms fed_crab_world ! 0) = ''Yeti Crab''"
    and "10 < o_energy (e_organisms fed_crab_world ! 0)"
    by (simp_all add: fed_crab_world_def)
  then have "predation fed_crab_world 0 (zero_tape\<lparr>pos := 3\<rparr>) = Inl IndexError"
    by (simp add: predation_def choice_Nil prey_indices_fed_crab_world)
  then have "process_organism crab_world 0 zero_tape = Inl IndexError"
    by (simp add: process_organism_def forage_crab_world)
  moreover have "[0..<length (e_organisms crab_world)] = [0]"
    by (simp add: crab_world_def)
  ultimately have "simulate_cycle crab_world zero_tape = Inl IndexError"
    by (simp add: simulate_cycle_def)
  then show ?thesis
    by (simp add: crab_world_def)
qed

section \<open>What a cycle leaves unchanged\<close>

lemma forage_frame:
  assumes "forage e i g = Inr (e1, g1, evs)"
  shows "e_features e1 = e_features e \<and> e_size e1 = e_size e
     \<and> e_temperature_map e1 = e_temperature_map e \<and> e_pressure_map e1 = e_pressure_map e
     \<and> length (e_organisms e1) = length (e_organisms e)"
  using assms
  by (auto simp: forage_def split: prod.splits sum.splits)

lemma predation_frame:
  assumes "predation e i g = Inr (e1, g1, evs)"
  shows "e_features e1 = e_features e \<and> e_size e1 = e_size e
     \<and> e_temperature_map e1 = e_temperature_map e \<and> e_pressure_map e1 = e_pressure_map e
     \<and> length (e_organisms e1) = length (e_organisms e)"
  using assms
  by (auto simp: predation_def Let_def split: prod.splits sum.splits if_splits)

lemma process_organism_frame:
  assumes "process_organism e i g = Inr (e1, g1, evs)"
  shows "e_features e1 = e_features e \<and> e_size e1 = e_size e
     \<and> e_temperature_map e1 = e_temperature_map e \<and> e_pressure_map e1 = e_pressure_map e
     \<and> length (e_organisms e1) = length (e_organisms e)"
proof -
  from assms obtain e0 g0 evs0 evs1 where
    f: "forage e i g = Inr (e0, g0, evs0)" and p: "predation e0 i g0 = Inr (e1, g1, evs1)"
    by (auto simp: process_organism_def split: sum.splits)
  from forage_frame [OF f] predation_frame [OF p] show ?thesis by simp
qed

lemma cycle_loop_frame:
  assumes "cycle_loop idxs e g = Inr (e1, g1, evs)"
  shows "e_features e1 = e_features e \<and> e_size e1 = e_size e
     \<and> e_temperature_map e1 = e_temperature_map e \<and> e_pressure_map e1 = e_pressure_map e
     \<and> length (e_organisms e1) = length (e_organisms e)"
  using assms
proof (induction idxs arbitrary: e g evs)
  case Nil
  then show ?case by simp
next
  case (Cons i rest)
  from Cons.prems obtain e0 g0 evs0 evs1 where
    p: "process_organism e i g = Inr (e0, g0, evs0)" and r: "cycle_loop rest e0 g0 = Inr (e1, g1, evs1)"
    by (auto split: sum.splits)
  from process_organism_frame [OF p] Cons.IH [OF r] show ?case by simp
qed

lemma simulate_cycle_frame:
  assumes "simulate_cycle e g = Inr (e1, g1, evs)"
  shows "e_features e1 = e_features e \<and> e_size e1 = e_size e
     \<and> e_temperature_map e1 = e_temperature_map e \<and> e_pressure_map e1 = e_pressure_map e
     \<and> length (e_organisms e1) = length (e_organisms e)"
  using assms unfolding simulate_cycle_def by (rule cycle_loop_frame)

section \<open>The statistics of the plot data\<close>

lemma count_members: "sum_list (map (\<lambda>org. 1::int) xs) = int (length xs)"
  by (induction xs) simp_all

lemma species_mean_error:
  "species_mean os species =
     (if filter (\<lambda>org. o_name org = species) os = [] then Inl ZeroDivisionError
      else Inr (sum_list (map o_energy (filter (\<lambda>org. o_name org = species) os))
                / real (length (filter (\<lambda>org. o_name org = species) os))))"
  by (simp add: species_mean_def py_truediv_def count_members)

text \<open>
  C6, as the code has it. When one of the three species has no member, \<^verbatim>\<open>get_plot_data\<close>
  of prototype3.py raises ZeroDivisionError: there is no result for any species. When each
  species has a member it returns the three means under the keys Microbe, Tubeworm and
  Crab.
\<close>

theorem get_plot_data_means:
  "(filter (\<lambda>org. o_name org = ''Sulfur-oxidizing Microbe'') (e_organisms e) = []
      \<or> filter (\<lambda>org. o_name org = ''Giant Tubeworm'') (e_organisms e) = []
      \<or> filter (\<lambda>org. o_name org = ''Yeti Crab'') (e_organisms e) = []
    \<longrightarrow> fst (get_plot_data e) = Inl ZeroDivisionError)
   \<and> (filter (\<lambda>org. o_name org = ''Sulfur-oxidizing Microbe'') (e_organisms e) \<noteq> []
      \<and> filter (\<lambda>org. o_name org = ''Giant Tubeworm'') (e_organisms e) \<noteq> []
      \<and> filter (\<lambda>org. o_name org = ''Yeti Crab'') (e_organisms e) \<noteq> []
    \<longrightarrow> fst (get_plot_data e)
          = Inr (map f_x (e_features e), map f_y (e_features e),
                 map o_x (e_organisms e), map o_y (e_organisms e),
                 map color_of (e_organisms e), map (\<lambda>org. o_size org * 100) (e_organisms e),
                 [(''Microbe'',
                   sum_list (map o_energy
                     (filter (\<lambda>org. o_name org = ''Sulfur-oxidizing Microbe'') (e_organisms e)))
                   / real (length
                     (filter (\<lambda>org. o_name org = ''Sulfur-oxidizing Microbe'') (e_organisms e)))),
                  (''Tubeworm'',
                   sum_list (map o_energy
                     (filter (\<lambda>org. o_name org = ''Giant Tubeworm'') (e_organisms e)))
                   / real (length
                     (filter (\<lambda>org. o_name org = ''Giant Tubeworm'') (e_organisms e)))),
                  (''Crab'',
                   sum_list (map o_energy
                     (filter (\<lambda>org. o_name org = ''Yeti Crab'') (e_organisms e)))
                   / real (length
                     (filter (\<lambda>org. o_name org = ''Yeti Crab'') (e_organisms e))))]))"
  by (simp add: get_plot_data_def species_mean_error)

theorem get_plot_data_means_witness:
  "filter (\<lambda>org. o_name org = ''Giant Tubeworm'') (e_organisms crab_world) = []
   \<and> fst (get_plot_data crab_world) = Inl ZeroDivisionError
   \<and> filter (\<lambda>org. o_name org = ''Sulfur-oxidizing Microbe'') (e_organisms small_world) \<noteq> []
   \<and> filter (\<lambda>org. o_name org = ''Giant Tubeworm'') (e_organisms small_world) \<noteq> []
   \<and> filter (\<lambda>org. o_name org = ''Yeti Crab'') (e_organisms small_world) \<noteq> []
   \<and> fst (get_plot_data small_world)
       = Inr ([2, 0, 1], [2, 1, 0], [1, 3, 3], [1, 3, 2], [''r'', ''g'', ''b''], [1, 10, 5],
              [(''Microbe'', 1), (''Tubeworm'', 5), (''Crab'', 12)])"
proof -
  have a: "filter (\<lambda>org. o_name org = ''Giant Tubeworm'') (e_organisms crab_world) = []"
    by (simp add: crab_world_def)
  have b: "filter (\<lambda>org. o_name org = ''Sulfur-oxidizing Microbe'') (e_organisms small_world) \<noteq> []"
    "filter (\<lambda>org. o_name org = ''Giant Tubeworm'') (e_organisms small_world) \<noteq> []"
    "filter (\<lambda>org. o_name org = ''Yeti Crab'') (e_organisms small_world) \<noteq> []"
    by (simp_all add: small_world_def small_organisms_def)
  from get_plot_data_means [of crab_world] a
  have c: "fst (get_plot_data crab_world) = Inl ZeroDivisionError"
    by blast
  from get_plot_data_means [of small_world] b
  have "fst (get_plot_data small_world)
          = Inr (map f_x (e_features small_world), map f_y (e_features small_world),
                 map o_x (e_organisms small_world), map o_y (e_organisms small_world),
                 map color_of (e_organisms small_world),
                 map (\<lambda>org. o_size org * 100) (e_organisms small_world),
                 [(''Microbe'',
                   sum_list (map o_energy
                     (filter (\<lambda>org. o_name org = ''Sulfur-oxidizing Microbe'') (e_organisms small_world)))
                   / real (length
                     (filter (\<lambda>org. o_name org = ''Sulfur-oxidizing Microbe'') (e_organisms small_world)))),
                  (''Tubeworm'',
                   sum_list (map o_energy
                     (filter (\<lambda>org. o_name org = ''Giant Tubeworm'') (e_organisms small_world)))
                   / real (length
                     (filter (\<lambda>org. o_name org = ''Giant Tubeworm'') (e_organisms small_world)))),
                  (''Crab'',
                   sum_list (map o_energy
                     (filter (\<lambda>org. o_name org = ''Yeti Crab'') (e_organisms small_world)))
                   / real (length
                     (filter (\<lambda>org. o_name org = ''Yeti Crab'') (e_organisms small_world))))])"
    by blast
  then have d: "fst (get_plot_data small_world)
       = Inr ([2, 0, 1], [2, 1, 0], [1, 3, 3], [1, 3, 2], [''r'', ''g'', ''b''], [1, 10, 5],
              [(''Microbe'', 1), (''Tubeworm'', 5), (''Crab'', 12)])"
    by (simp add: small_world_def small_organisms_def small_features_def color_of_def)
  from a b c d show ?thesis by blast
qed

text \<open>
  C6 as claimed fails: in a world without Giant Tubeworms (and without microbes)
  \<^verbatim>\<open>get_plot_data\<close> raises ZeroDivisionError.
\<close>

theorem get_plot_data_empty_species_counterexample:
  "filter (\<lambda>org. o_name org = ''Giant Tubeworm'') (e_organisms crab_world) = []
   \<and> fst (get_plot_data crab_world) = Inl ZeroDivisionError"
  by (simp add: get_plot_data_def species_mean_def py_truediv_def crab_world_def)

text \<open>
  C9. \<^verbatim>\<open>get_plot_data\<close> mutates nothing, in prototype3.py (also when it raises) and in
  prototype2.py: the ecosystem after the call, with its features, organisms and both maps,
  is the ecosystem before the call.
\<close>

theorem get_plot_data_no_mutation:
  "snd (get_plot_data e) = e \<and> snd (get_plot_data_p2 e) = e"
  by (simp add: get_plot_data_def get_plot_data_p2_def split: sum.splits)

section \<open>The environment maps\<close>

lemma random_unit_range:
  assumes "random_unit g = (u, g1)"
  shows "0 \<le> u \<and> u < 1"
proof -
  from assms have u: "u = real (tape g (pos g) mod 2 ^ 53) / 2 ^ 53"
    by (auto simp: random_unit_def next_raw_def)
  have "tape g (pos g) mod 2 ^ 53 < (2::nat) ^ 53"
    by simp
  then have "real (tape g (pos g) mod 2 ^ 53) < real ((2::nat) ^ 53)"
    by (simp only: of_nat_less_iff)
  then have "real (tape g (pos g) mod 2 ^ 53) / 2 ^ 53 < 1"
    by simp
  then show ?thesis
    by (simp add: u)
qed

lemma uniform_range:
  assumes "uniform 5 15 g = (v, g1)"
  shows "5 \<le> v \<and> v \<le> 15"
proof -
  obtain u g' where r: "random_unit g = (u, g')"
    by (cases "random_unit g")
  with assms have v: "v = 5 + (15 - 5) * u"
    by (simp add: uniform_def)
  from random_unit_range [OF r] show ?thesis
    by (simp add: v)
qed

lemma uniform_row_range:
  assumes "uniform_row n g = (vs, g1)"
  shows "length vs = n \<and> (\<forall>v \<in> set vs. 5 \<le> v \<and> v \<le> 15)"
  using assms
proof (induction n arbitrary: g vs g1)
  case 0
  then show ?case by simp
next
  case (Suc n)
  obtain v g' where u: "uniform 5 15 g = (v, g')"
    by (cases "uniform 5 15 g")
  obtain rest g'' where r: "uniform_row n g' = (rest, g'')"
    by (cases "uniform_row n g'")
  from Suc.prems u r have vs: "vs = v # rest"
    by simp
  from uniform_range [OF u] Suc.IH [OF r] show ?case
    by (simp add: vs)
qed

lemma uniform_rows_range:
  assumes "uniform_rows m n g = (rows, g1)"
  shows "length rows = m \<and> (\<forall>row \<in> set rows. length row = n \<and> (\<forall>v \<in> set row. 5 \<le> v \<and> v \<le> 15))"
  using assms
proof (induction m arbitrary: g rows g1)
  case 0
  then show ?case by simp
next
  case (Suc m)
  obtain row g' where u: "uniform_row n g = (row, g')"
    by (cases "uniform_row n g")
  obtain rest g'' where r: "uniform_rows m n g' = (rest, g'')"
    by (cases "uniform_rows m n g'")
  from Suc.prems u r have rows: "rows = row # rest"
    by simp
  from uniform_row_range [OF u] Suc.IH [OF r] show ?case
    by (simp add: rows)
qed

text \<open>
  C7. The ecosystem built by \<^verbatim>\<open>__init__\<close> for a size \<open>(width, height)\<close> has maps of \<open>width\<close>
  rows of \<open>height\<close> cells; every temperature cell lies in \<open>[5, 15]\<close> and every pressure cell
  \<open>(x, y)\<close> is \<open>100 + 10 * y\<close>, whatever \<open>x\<close>. The maps are generated there and nowhere else: a
  cycle and \<^verbatim>\<open>get_plot_data\<close> leave both as they are.
\<close>

theorem Ecosystem_init_fields:
  assumes init: "Ecosystem_init features organisms (width, height) g = (e, g1)"
  shows "length (e_temperature_map e) = nat width \<and> length (e_pressure_map e) = nat width
     \<and> (\<forall>x<nat width. length (e_temperature_map e ! x) = nat height
          \<and> length (e_pressure_map e ! x) = nat height
          \<and> (\<forall>y<nat height.
                5 \<le> e_temperature_map e ! x ! y \<and> e_temperature_map e ! x ! y \<le> 15
              \<and> e_pressure_map e ! x ! y = 100 + 10 * int y))
     \<and> (\<forall>g2 e' g3 evs. simulate_cycle e g2 = Inr (e', g3, evs)
          \<longrightarrow> e_temperature_map e' = e_temperature_map e \<and> e_pressure_map e' = e_pressure_map e)
     \<and> snd (get_plot_data e) = e"
proof -
  obtain tmap g' where t: "uniform_rows (nat width) (nat height) g = (tmap, g')"
    by (cases "uniform_rows (nat width) (nat height) g")
  with init have tm: "e_temperature_map e = tmap"
    and pm: "e_pressure_map e = generate_pressure_map (width, height)"
    by (auto simp: Ecosystem_init_def generate_temperature_map_def)
  from uniform_rows_range [OF t] have len: "length tmap = nat width"
    and rows: "\<forall>row \<in> set tmap. length row = nat height \<and> (\<forall>v \<in> set row. 5 \<le> v \<and> v \<le> 15)"
    by simp_all
  have cells: "length (tmap ! x) = nat height
      \<and> length (generate_pressure_map (width, height) ! x) = nat height
      \<and> (\<forall>y<nat height. 5 \<le> tmap ! x ! y \<and> tmap ! x ! y \<le> 15
            \<and> generate_pressure_map (width, height) ! x ! y = 100 + 10 * int y)"
    if x: "x < nat width" for x
  proof -
    from x len have "tmap ! x \<in> set tmap" by simp
    with rows have r: "length (tmap ! x) = nat height" "\<forall>v \<in> set (tmap ! x). 5 \<le> v \<and> v \<le> 15"
      by simp_all
    have "5 \<le> tmap ! x ! y \<and> tmap ! x ! y \<le> 15" if "y < nat height" for y
      using r that by simp
    moreover have "generate_pressure_map (width, height) ! x = map (\<lambda>y. 100 + 10 * int y) [0..<nat height]"
      using x by (simp add: generate_pressure_map_def)
    ultimately show ?thesis
      using r(1) by simp
  qed
  have frame: "e_temperature_map e' = e_temperature_map e \<and> e_pressure_map e' = e_pressure_map e"
    if "simulate_cycle e g2 = Inr (e', g3, evs)" for g2 e' g3 evs
    using simulate_cycle_frame [OF that] by simp
  have plot: "snd (get_plot_data e) = e"
    by (simp add: get_plot_data_def split: sum.splits)
  have "length (generate_pressure_map (width, height)) = nat width"
    by (simp add: generate_pressure_map_def)
  with len cells frame plot show ?thesis
    unfolding tm pm by blast
qed

lemma Ecosystem_init_tiny_world:
  "Ecosystem_init small_features tiny_organisms (2, 2) zero_tape = (tiny_world, zero_tape\<lparr>pos := 4\<rparr>)"
proof -
  have four: "(4::nat) = Suc (Suc (Suc (Suc 0)))"
    by simp
  have two: "(2::nat) = Suc (Suc 0)"
    by simp
  have upt: "[0..<Suc (Suc 0)] = [0, Suc 0]"
    by simp
  have "Ecosystem_init small_features tiny_organisms (2, 2) zero_tape
      = (tiny_world, zero_tape\<lparr>pos := Suc (Suc (Suc (Suc 0)))\<rparr>)"
    unfolding Ecosystem_init_def generate_temperature_map_def generate_pressure_map_def
    by (simp add: two upt tiny_world_def uniform_def random_unit_def next_raw_def zero_tape_def)
  then show ?thesis
    unfolding four .
qed

lemma simulate_cycle_tiny_world:
  "simulate_cycle tiny_world (zero_tape\<lparr>pos := 4\<rparr>)
     = Inr (tiny_world_after, zero_tape\<lparr>pos := 7\<rparr>,
            [Foraged ''Sulfur-oxidizing Microbe'' 0 0 (7 / 2000) ''Methane'' ''Methane Seep''])"
proof -
  have seven: "(7::nat) = Suc (Suc (Suc 4))"
    by simp
  have f: "forage tiny_world 0 (zero_tape\<lparr>pos := 4\<rparr>)
     = Inr (tiny_world_after, zero_tape\<lparr>pos := Suc (Suc (Suc 4))\<rparr>,
            [Foraged ''Sulfur-oxidizing Microbe'' 0 0 (7 / 2000) ''Methane'' ''Methane Seep''])"
    by (simp add: forage_def tiny_world_def tiny_world_after_def tiny_organisms_def zero_tape_def
        randint_def next_raw_def move_def get_nearby_feature_def py_min_def small_features_def
        distance_def choice_def py_index2_def py_index_def metabolize_def methane_def Let_def)
  have p: "predation tiny_world_after 0 g = Inr (tiny_world_after, g, [])" for g
    by (simp add: predation_def tiny_world_after_def tiny_world_def)
  have "[0..<length (e_organisms tiny_world)] = [0]"
    by (simp add: tiny_world_def tiny_organisms_def)
  then show ?thesis
    unfolding seven by (simp add: simulate_cycle_def process_organism_def f p)
qed

theorem Ecosystem_init_fields_witness:
  "Ecosystem_init small_features tiny_organisms (2, 2) zero_tape = (tiny_world, zero_tape\<lparr>pos := 4\<rparr>)
   \<and> length (e_temperature_map tiny_world) = 2 \<and> length (e_pressure_map tiny_world) = 2
   \<and> 5 \<le> e_temperature_map tiny_world ! 1 ! 1 \<and> e_temperature_map tiny_world ! 1 ! 1 \<le> 15
   \<and> e_pressure_map tiny_world ! 0 ! 1 = 110 \<and> e_pressure_map tiny_world ! 1 ! 1 = 110
   \<and> simulate_cycle tiny_world (zero_tape\<lparr>pos := 4\<rparr>)
       = Inr (tiny_world_after, zero_tape\<lparr>pos := 7\<rparr>,
              [Foraged ''Sulfur-oxidizing Microbe'' 0 0 (7 / 2000) ''Methane'' ''Methane Seep''])
   \<and> e_temperature_map tiny_world_after = e_temperature_map tiny_world
   \<and> e_pressure_map tiny_world_after = e_pressure_map tiny_world"
proof -
  note fields = Ecosystem_init_fields [OF Ecosystem_init_tiny_world]
  from fields have len: "length (e_temperature_map tiny_world) = nat 2"
    "length (e_pressure_map tiny_world) = nat 2"
    by blast+
  from fields have "\<forall>x<nat 2. \<forall>y<nat 2.
      5 \<le> e_temperature_map tiny_world ! x ! y \<and> e_temperature_map tiny_world ! x ! y \<le> 15
      \<and> e_pressure_map tiny_world ! x ! y = 100 + 10 * int y"
    by blast
  then have cells: "5 \<le> e_temperature_map tiny_world ! 1 ! 1"
    "e_temperature_map tiny_world ! 1 ! 1 \<le> 15"
    "e_pressure_map tiny_world ! 0 ! 1 = 110" "e_pressure_map tiny_world ! 1 ! 1 = 110"
    by simp_all
  from fields simulate_cycle_tiny_world
  have frame: "e_temperature_map tiny_world_after = e_temperature_map tiny_world
      \<and> e_pressure_map tiny_world_after = e_pressure_map tiny_world"
    by blast
  from Ecosystem_init_tiny_world len cells simulate_cycle_tiny_world frame show ?thesis
    by simp
qed

section \<open>prototype2.py and prototype3.py\<close>

lemma metabolize_p2_eq: "metabolize_p2 = metabolize"
  by (intro ext) (simp add: metabolize_p2_def metabolize_def)

lemma move_p2_eq: "move_p2 = move"
  by (intro ext) (simp add: move_p2_def move_def)

lemma get_nearby_feature_p2_eq: "get_nearby_feature_p2 = get_nearby_feature"
  by (intro ext) (simp add: get_nearby_feature_p2_def get_nearby_feature_def distance_def)

lemma cycle_body_p2_eq:
  assumes "i < length (e_organisms e)"
  shows "cycle_body_p2 e i g = process_organism e i g"
  using assms
  by (auto simp: cycle_body_p2_def process_organism_def forage_def predation_def prey_indices_def
      distance_def metabolize_p2_eq move_p2_eq get_nearby_feature_p2_eq Let_def
      split: prod.splits sum.splits)

lemma cycle_loop_p2_eq:
  assumes "\<forall>i \<in> set idxs. i < length (e_organisms e)"
  shows "cycle_loop_p2 idxs e g = cycle_loop idxs e g"
  using assms
proof (induction idxs arbitrary: e g)
  case Nil
  show ?case by simp
next
  case (Cons i rest)
  then have i: "i < length (e_organisms e)" by simp
  show ?case
  proof (cases "process_organism e i g")
    case (Inl err)
    with i show ?thesis by (simp add: cycle_body_p2_eq)
  next
    case (Inr r)
    obtain e1 g1 evs1 where r: "r = (e1, g1, evs1)" by (cases r)
    from Inr r process_organism_frame have "length (e_organisms e1) = length (e_organisms e)"
      by blast
    with Cons.prems have "\<forall>k \<in> set rest. k < length (e_organisms e1)" by simp
    then have "cycle_loop_p2 rest e1 g1 = cycle_loop rest e1 g1" by (rule Cons.IH)
    with Inr r i show ?thesis by (simp add: cycle_body_p2_eq)
  qed
qed

text \<open>
  C10. From the same ecosystem and the same generator, \<^verbatim>\<open>simulate_cycle\<close> of prototype2.py
  and \<^verbatim>\<open>simulate_cycle\<close> of prototype3.py give the same result: the same exception, or
  the same organisms (positions and energies), the same generator state and the same
  printed events.
\<close>

theorem simulate_cycle_p2_eq: "simulate_cycle_p2 e g = simulate_cycle e g"
  unfolding simulate_cycle_p2_def simulate_cycle_def
  by (rule cycle_loop_p2_eq) simp

section \<open>Determinism of a run\<close>

lemma tapes_agree_mono: "tapes_agree n g1 g2 \<Longrightarrow> m \<le> n \<Longrightarrow> tapes_agree m g1 g2"
  by (simp add: tapes_agree_def)

lemma next_raw_agree:
  assumes "tapes_agree (Suc n) g1 g2"
  shows "fst (next_raw g1) = fst (next_raw g2) \<and> tapes_agree n (snd (next_raw g1)) (snd (next_raw g2))"
proof -
  from assms have "tape g1 (pos g1 + 0) = tape g2 (pos g2 + 0)"
    unfolding tapes_agree_def by blast
  moreover have "tape g1 (Suc (pos g1) + k) = tape g2 (Suc (pos g2) + k)" if "k < n" for k
  proof -
    from that have "Suc k < Suc n" by simp
    with assms have "tape g1 (pos g1 + Suc k) = tape g2 (pos g2 + Suc k)"
      unfolding tapes_agree_def by blast
    then show ?thesis by simp
  qed
  ultimately show ?thesis
    by (simp add: next_raw_def tapes_agree_def)
qed

lemma randint_agree:
  assumes "tapes_agree (Suc n) g1 g2"
  shows "fst (randint a b g1) = fst (randint a b g2)
     \<and> tapes_agree n (snd (randint a b g1)) (snd (randint a b g2))"
  using next_raw_agree [OF assms]
  by (auto simp: randint_def split: prod.splits)

lemma choice_agree:
  assumes "tapes_agree (Suc n) g1 g2"
  shows "(case choice xs g1 of
            Inl err \<Rightarrow> choice xs g2 = Inl err
          | Inr (x, g1') \<Rightarrow> (\<exists>g2'. choice xs g2 = Inr (x, g2') \<and> tapes_agree n g1' g2'))"
  using next_raw_agree [OF assms]
  by (auto simp: choice_def split: prod.splits)

lemma forage_agree:
  assumes "tapes_agree (Suc (Suc (Suc n))) g1 g2"
  shows "results_agree n (forage e i g1) (forage e i g2)"
proof -
  obtain dx h1 where r1: "randint (- 1) 1 g1 = (dx, h1)" by (cases "randint (- 1) 1 g1")
  obtain dx' h1' where r1': "randint (- 1) 1 g2 = (dx', h1')" by (cases "randint (- 1) 1 g2")
  from randint_agree [OF assms, of "- 1" 1] r1 r1'
  have dx: "dx' = dx" and a1: "tapes_agree (Suc (Suc n)) h1 h1'" by simp_all
  obtain dy h2 where r2: "randint (- 1) 1 h1 = (dy, h2)" by (cases "randint (- 1) 1 h1")
  obtain dy' h2' where r2': "randint (- 1) 1 h1' = (dy', h2')" by (cases "randint (- 1) 1 h1'")
  from randint_agree [OF a1, of "- 1" 1] r2 r2'
  have dy: "dy' = dy" and a2: "tapes_agree (Suc n) h2 h2'" by simp_all
  note c = choice_agree [OF a2]
  show ?thesis
  proof (cases "move (e_organisms e ! i) dx dy (fst (e_size e)) (snd (e_size e))")
    case (Inl err)
    then show ?thesis
      by (simp add: forage_def r1 r1' r2 r2' dx dy results_agree_def)
  next
    case mv: (Inr organism)
    show ?thesis
    proof (cases "get_nearby_feature e organism")
      case (Inl err)
      with mv show ?thesis
        by (simp add: forage_def r1 r1' r2 r2' dx dy results_agree_def)
    next
      case ft: (Inr feature)
      show ?thesis
      proof (cases "choice (f_compounds feature) h2")
        case (Inl err)
        with c [of "f_compounds feature"] have "choice (f_compounds feature) h2' = Inl err"
          by simp
        with Inl mv ft show ?thesis
          by (simp add: forage_def r1 r1' r2 r2' dx dy results_agree_def)
      next
        case (Inr p)
        obtain compound h3 where p: "p = (compound, h3)" by (cases p)
        with Inr c [of "f_compounds feature"] obtain h3' where
          ch': "choice (f_compounds feature) h2' = Inr (compound, h3')" and a3: "tapes_agree n h3 h3'"
          by auto
        from Inr p have ch: "choice (f_compounds feature) h2 = Inr (compound, h3)" by simp
        show ?thesis
          using a3
          by (simp add: forage_def r1 r1' r2 r2' dx dy mv ft ch ch' results_agree_def
              split: sum.splits prod.splits)
      qed
    qed
  qed
qed

lemma predation_agree:
  assumes "tapes_agree (Suc n) g1 g2"
  shows "results_agree n (predation e i g1) (predation e i g2)"
proof (cases "o_name (e_organisms e ! i) = ''Yeti Crab'' \<and> 10 < o_energy (e_organisms e ! i)")
  case False
  from assms have "tapes_agree n g1 g2"
    by (rule tapes_agree_mono) simp
  with False show ?thesis
    by (auto simp: predation_def results_agree_def)
next
  case True
  note c = choice_agree [OF assms, of "prey_indices e"]
  show ?thesis
  proof (cases "choice (prey_indices e) g1")
    case (Inl err)
    with c have "choice (prey_indices e) g2 = Inl err" by simp
    with Inl True show ?thesis
      by (simp add: predation_def results_agree_def)
  next
    case (Inr p)
    obtain j h where p: "p = (j, h)" by (cases p)
    with Inr c obtain h' where
      ch': "choice (prey_indices e) g2 = Inr (j, h')" and a: "tapes_agree n h h'"
      by auto
    from Inr p have ch: "choice (prey_indices e) g1 = Inr (j, h)" by simp
    show ?thesis
      using True a by (simp add: predation_def ch ch' results_agree_def Let_def)
  qed
qed

lemma process_organism_agree:
  assumes "tapes_agree (Suc (Suc (Suc (Suc n)))) g1 g2"
  shows "results_agree n (process_organism e i g1) (process_organism e i g2)"
proof -
  note f = forage_agree [OF assms, of e i]
  show ?thesis
  proof (cases "forage e i g1")
    case (Inl err)
    with f have "forage e i g2 = Inl err"
      by (simp add: results_agree_def)
    with Inl show ?thesis
      by (simp add: process_organism_def results_agree_def)
  next
    case (Inr r)
    obtain e1 h evs where r: "r = (e1, h, evs)" by (cases r)
    with Inr f obtain h' where f2: "forage e i g2 = Inr (e1, h', evs)" and a: "tapes_agree (Suc n) h h'"
      by (auto simp: results_agree_def split: sum.splits)
    from Inr r have f1: "forage e i g1 = Inr (e1, h, evs)" by simp
    from predation_agree [OF a, of e1 i] show ?thesis
      by (auto simp: process_organism_def f1 f2 results_agree_def split: sum.splits)
  qed
qed

lemma cycle_loop_agree:
  assumes "tapes_agree (4 * length idxs + n) g1 g2"
  shows "results_agree n (cycle_loop idxs e g1) (cycle_loop idxs e g2)"
  using assms
proof (induction idxs arbitrary: e g1 g2)
  case Nil
  then show ?case by (simp add: results_agree_def)
next
  case (Cons i rest)
  have "4 * length (i # rest) + n = Suc (Suc (Suc (Suc (4 * length rest + n))))"
    by simp
  with Cons.prems have "tapes_agree (Suc (Suc (Suc (Suc (4 * length rest + n))))) g1 g2"
    by (simp only:)
  note p = process_organism_agree [OF this, of e i]
  show ?case
  proof (cases "process_organism e i g1")
    case (Inl err)
    with p have "process_organism e i g2 = Inl err"
      by (simp add: results_agree_def)
    with Inl show ?thesis
      by (simp add: results_agree_def)
  next
    case (Inr r)
    obtain e1 h evs where r: "r = (e1, h, evs)" by (cases r)
    with Inr p obtain h' where p2: "process_organism e i g2 = Inr (e1, h', evs)"
      and a: "tapes_agree (4 * length rest + n) h h'"
      by (auto simp: results_agree_def split: sum.splits)
    from Inr r have p1: "process_organism e i g1 = Inr (e1, h, evs)" by simp
    from Cons.IH [OF a, of e1] show ?thesis
      by (auto simp: p1 p2 results_agree_def split: sum.splits)
  qed
qed

lemma simulate_cycle_agree:
  assumes "tapes_agree (4 * length (e_organisms e) + n) g1 g2"
  shows "results_agree n (simulate_cycle e g1) (simulate_cycle e g2)"
  unfolding simulate_cycle_def using assms
  by (intro cycle_loop_agree) simp

lemma run_cycles_agree:
  assumes "tapes_agree (4 * length (e_organisms e) * k + n) g1 g2"
  shows "results_agree n (run_cycles k e g1) (run_cycles k e g2)"
  using assms
proof (induction k arbitrary: e g1 g2)
  case 0
  then show ?case by (simp add: results_agree_def)
next
  case (Suc k)
  have "4 * length (e_organisms e) * Suc k + n
      = 4 * length (e_organisms e) + (4 * length (e_organisms e) * k + n)"
    by simp
  with Suc.prems have "tapes_agree (4 * length (e_organisms e) + (4 * length (e_organisms e) * k + n)) g1 g2"
    by (simp only:)
  note s = simulate_cycle_agree [OF this]
  show ?case
  proof (cases "simulate_cycle e g1")
    case (Inl err)
    with s have "simulate_cycle e g2 = Inl err"
      by (simp add: results_agree_def)
    with Inl show ?thesis
      by (simp add: results_agree_def)
  next
    case (Inr r)
    obtain e1 h evs where r: "r = (e1, h, evs)" by (cases r)
    with Inr s obtain h' where s2: "simulate_cycle e g2 = Inr (e1, h', evs)"
      and a: "tapes_agree (4 * length (e_organisms e) * k + n) h h'"
      by (auto simp: results_agree_def split: sum.splits)
    from Inr r have s1: "simulate_cycle e g1 = Inr (e1, h, evs)" by simp
    from simulate_cycle_frame [OF s1] have "length (e_organisms e1) = length (e_organisms e)"
      by simp
    with a have "tapes_agree (4 * length (e_organisms e1) * k + n) h h'"
      by simp
    from Suc.IH [OF this] show ?thesis
      by (auto simp: s1 s2 results_agree_def split: sum.splits)
  qed
qed

lemma results_agree_outcome: "results_agree n r1 r2 \<Longrightarrow> outcome r1 = outcome r2"
  by (auto simp: results_agree_def outcome_def split: sum.splits)

text \<open>
  C8. A cycle draws at most four times for each organism, in a fixed order: the two deltas,
  the compound, and the prey when the predation test asks for one. So two runs of \<open>n\<close>
  cycles from the same ecosystem, with generators that agree on the next
  \<open>4 * organisms * n\<close> draws, end alike: with the same exception, or with the same events in
  the same order and the same final organisms. Two generators set up from the same seed
  are the same generator, and agree on every draw.
\<close>

theorem run_cycles_deterministic:
  assumes "tapes_agree (4 * length (e_organisms e) * n) g1 g2"
  shows "outcome (run_cycles n e g1) = outcome (run_cycles n e g2)"
proof -
  from assms have "tapes_agree (4 * length (e_organisms e) * n + 0) g1 g2"
    by simp
  then have "results_agree 0 (run_cycles n e g1) (run_cycles n e g2)"
    by (rule run_cycles_agree)
  then show ?thesis
    by (rule results_agree_outcome)
qed

theorem run_cycles_deterministic_witness:
  "tapes_agree (4 * length (e_organisms tiny_world) * 1) (zero_tape\<lparr>pos := 4\<rparr>) late_tape
   \<and> outcome (run_cycles 1 tiny_world (zero_tape\<lparr>pos := 4\<rparr>))
       = Inr (tiny_world_after,
              [Foraged ''Sulfur-oxidizing Microbe'' 0 0 (7 / 2000) ''Methane'' ''Methane Seep''])
   \<and> outcome (run_cycles 1 tiny_world late_tape)
       = Inr (tiny_world_after,
              [Foraged ''Sulfur-oxidizing Microbe'' 0 0 (7 / 2000) ''Methane'' ''Methane Seep''])"
proof -
  have a: "tapes_agree (4 * length (e_organisms tiny_world) * 1) (zero_tape\<lparr>pos := 4\<rparr>) late_tape"
    by (simp add: tapes_agree_def tiny_world_def tiny_organisms_def zero_tape_def late_tape_def)
  have "run_cycles (Suc 0) tiny_world (zero_tape\<lparr>pos := 4\<rparr>)
     = Inr (tiny_world_after, zero_tape\<lparr>pos := 7\<rparr>,
            [Foraged ''Sulfur-oxidizing Microbe'' 0 0 (7 / 2000) ''Methane'' ''Methane Seep''])"
    by (simp add: simulate_cycle_tiny_world)
  then have b: "outcome (run_cycles 1 tiny_world (zero_tape\<lparr>pos := 4\<rparr>))
       = Inr (tiny_world_after,
              [Foraged ''Sulfur-oxidizing Microbe'' 0 0 (7 / 2000) ''Methane'' ''Methane Seep''])"
    by (simp add: outcome_def)
  from run_cycles_deterministic [OF a] b a show ?thesis
    by simp
qed

end
